theory Spec2Isabelle
  imports Main "HOL-Library.Word" "HOL-Library.Sublist" "HOL-Library.AList"
begin

section \<open>JavaScript strings\<close>

text \<open>
  A JavaScript string is a sequence of UTF-16 code units. The model keeps that: a
  character is a 16-bit word and a string is a list of them. Literals of the source are
  written as Isabelle string literals and injected with \<open>js\<close>; code units outside
  ASCII are written as numbers.
\<close>

type_synonym jschar = "16 word"
type_synonym jsstring = "jschar list"

definition js :: "string \<Rightarrow> jsstring" where
  "js s = map of_char s"

text \<open>
  \<open>LineTerminator\<close> and \<open>WhiteSpace\<close> of ECMAScript. \<open>String.prototype.trim\<close> and the
  regular expression class \<open>\s\<close> both use the union of the two.
\<close>

definition isLineTerminator :: "jschar \<Rightarrow> bool" where
  "isLineTerminator c = (c = 0x000A \<or> c = 0x000D \<or> c = 0x2028 \<or> c = 0x2029)"

definition isWhiteSpace :: "jschar \<Rightarrow> bool" where
  "isWhiteSpace c =
     (c = 0x0009 \<or> c = 0x000B \<or> c = 0x000C \<or> c = 0x0020 \<or> c = 0x00A0 \<or> c = 0xFEFF
      \<or> c = 0x1680 \<or> (0x2000 \<le> c \<and> c \<le> 0x200A) \<or> c = 0x202F \<or> c = 0x205F
      \<or> c = 0x3000 \<or> isLineTerminator c)"

definition trim :: "jsstring \<Rightarrow> jsstring" where
  "trim s = rev (dropWhile isWhiteSpace (rev (dropWhile isWhiteSpace s)))"

definition startsWith :: "jsstring \<Rightarrow> jsstring \<Rightarrow> bool" where
  "startsWith s p = (take (length p) s = p)"

section \<open>Payload exchange: the plist envelope\<close>

text \<open>
  \<open>wrapXmlInPlist\<close> of \<open>tools/macros.ts\<close>. The template literal of the source spans five
  lines; its line breaks are the \<open>\<newline>\<close> characters below.
\<close>

definition wrapXmlInPlist :: "jsstring \<Rightarrow> jsstring" where
  \<open>wrapXmlInPlist xml =
     (let trimmed = trim xml in
      if startsWith trimmed (js ''<?xml'') \<or> startsWith trimmed (js ''<!DOCTYPE'')
         \<or> startsWith trimmed (js ''<plist'')
      then trimmed
      else js ''<?xml version="1.0" encoding="UTF-8"?>\<newline>''
         @ js ''<!DOCTYPE plist PUBLIC "-//Apple//DTD PLIST 1.0//EN" "http://www.apple.com/DTDs/PropertyList-1.0.dtd">\<newline>''
         @ js ''<plist version="1.0">\<newline>''
         @ trimmed
         @ js ''\<newline></plist>'')\<close>

text \<open>The three parts of the envelope, named as the specification names them.\<close>

definition xmlDeclaration :: jsstring where
  \<open>xmlDeclaration = js ''<?xml version="1.0" encoding="UTF-8"?>''\<close>

definition doctypeHeader :: jsstring where
  \<open>doctypeHeader =
     js ''<!DOCTYPE plist PUBLIC "-//Apple//DTD PLIST 1.0//EN" "http://www.apple.com/DTDs/PropertyList-1.0.dtd">''\<close>

definition envelope :: "jsstring \<Rightarrow> jsstring" where
  \<open>envelope fragment =
     xmlDeclaration @ [0x0A] @ doctypeHeader @ [0x0A]
     @ js ''<plist version="1.0">'' @ [0x0A] @ fragment @ [0x0A] @ js ''</plist>''\<close>

section \<open>More string primitives\<close>

text \<open>
  \<open>s.replace(/c/g, r)\<close> for a pattern that is one literal character and a replacement
  without \<open>$\<close>: every occurrence of the character is replaced.
\<close>

definition replaceAll :: "jschar \<Rightarrow> jsstring \<Rightarrow> jsstring \<Rightarrow> jsstring" where
  "replaceAll c r s = concat (map (\<lambda>x. if x = c then r else [x]) s)"

text \<open>The two characters that end or escape an AppleScript string literal.\<close>

definition dquote :: jschar where
  "dquote = 0x22"

definition backslash :: jschar where
  "backslash = 0x5C"

text \<open>
  \<open>s.split(sep)\<close> for a string separator: the occurrences of \<open>sep\<close> are found from left
  to right without overlap, and the empty string splits into one empty piece. With the
  empty separator JavaScript splits into code units.
\<close>

fun splitFrom :: "jsstring \<Rightarrow> jsstring \<Rightarrow> jsstring \<Rightarrow> jsstring list" where
  "splitFrom sep acc [] = [rev acc]"
| "splitFrom sep acc (c # cs) =
     (if sep \<noteq> [] \<and> take (length sep) (c # cs) = sep
      then rev acc # splitFrom sep [] (drop (length sep - 1) cs)
      else splitFrom sep (c # acc) cs)"

definition split :: "jsstring \<Rightarrow> jsstring \<Rightarrow> jsstring list" where
  "split sep s = (if sep = [] then map (\<lambda>c. [c]) s else splitFrom sep [] s)"

text \<open>
  Numbers. The numbers of the modelled code are counts, positions and millisecond clock
  readings: integers far below \<open>10^21\<close>, which JavaScript prints in plain decimal.
  The model takes them as \<open>int\<close>; \<open>NaN\<close> is \<open>None\<close> where it can arise.
\<close>

fun digitsOf :: "nat \<Rightarrow> jsstring" where
  "digitsOf n =
     (if n < 10 then [48 + of_nat n] else digitsOf (n div 10) @ [48 + of_nat (n mod 10)])"

declare digitsOf.simps [simp del]

definition numberToString :: "int \<Rightarrow> jsstring" where
  "numberToString i = (if i < 0 then 0x2D # digitsOf (nat (- i)) else digitsOf (nat i))"

definition isDigit :: "jschar \<Rightarrow> bool" where
  "isDigit c = (0x30 \<le> c \<and> c \<le> 0x39)"

definition digitValue :: "jschar \<Rightarrow> int option" where
  "digitValue c =
     (if 0x30 \<le> c \<and> c \<le> 0x39 then Some (uint c - 0x30)
      else if 0x61 \<le> c \<and> c \<le> 0x7A then Some (uint c - 0x61 + 10)
      else if 0x41 \<le> c \<and> c \<le> 0x5A then Some (uint c - 0x41 + 10)
      else None)"

definition isRadixDigit :: "int \<Rightarrow> jschar \<Rightarrow> bool" where
  "isRadixDigit radix c = (case digitValue c of None \<Rightarrow> False | Some d \<Rightarrow> d < radix)"

text \<open>
  \<open>${x}\<close> in a template literal, for a parameter that the caller hands over unchecked:
  a string is written as it is and a number in decimal; a parameter that was left out is
  \<open>undefined\<close> at run time, whatever type is declared for it, and is written as the
  text \<open>undefined\<close>.
\<close>

definition templateString :: "jsstring option \<Rightarrow> jsstring" where
  "templateString x = (case x of None \<Rightarrow> js ''undefined'' | Some s \<Rightarrow> s)"

definition templateNumber :: "int option \<Rightarrow> jsstring" where
  "templateNumber x = (case x of None \<Rightarrow> js ''undefined'' | Some n \<Rightarrow> numberToString n)"

text \<open>
  \<open>parseInt(s)\<close> with no radix argument: leading white space is skipped, a sign is
  read, a \<open>0x\<close> or \<open>0X\<close> prefix selects radix 16, and the longest run of digits of
  the radix is the value; no digit at all is \<open>NaN\<close>.
\<close>

definition parseInt :: "jsstring \<Rightarrow> int option" where
  "parseInt s =
     (let s1 = dropWhile isWhiteSpace s;
          sign = (if s1 \<noteq> [] \<and> hd s1 = 0x2D then - 1 else (1::int));
          s2 = (if s1 \<noteq> [] \<and> (hd s1 = 0x2D \<or> hd s1 = 0x2B) then tl s1 else s1);
          hex = (startsWith s2 (js ''0x'') \<or> startsWith s2 (js ''0X''));
          radix = (if hex then 16 else 10);
          s3 = (if hex then drop 2 s2 else s2);
          z = takeWhile (isRadixDigit radix) s3
      in if z = [] then None
         else Some (sign * foldl (\<lambda>acc c. acc * radix + (case digitValue c of Some d \<Rightarrow> d | None \<Rightarrow> 0)) 0 z))"

text \<open>\<open>parseInt(s) || 0\<close>: \<open>NaN\<close> and \<open>0\<close> both give \<open>0\<close>.\<close>

definition parseIntOr0 :: "jsstring \<Rightarrow> int" where
  "parseIntOr0 s = (case parseInt s of None \<Rightarrow> 0 | Some n \<Rightarrow> n)"

section \<open>The host: clock, scratch files and the process runner\<close>

text \<open>
  Everything outside the program is a parameter: the clock behind \<open>Date.now()\<close>, the
  file system calls of \<open>fs\<close>, \<open>os.tmpdir()\<close>, \<open>os.homedir()\<close> and the child process
  behind \<open>execAsync\<close>; so are two functions of the runtime that depend on its Unicode
  tables and its time zone, \<open>String.prototype.toLowerCase\<close> and the \<open>Date\<close> constructor on
  a string (\<open>dateParse\<close>, in milliseconds, \<open>None\<close> for an invalid date). Each is a function of an abstract world \<open>'w\<close>, so a host may answer
  every call differently, fail at any call, and change the world as it likes. A failing
  call gives the message of the exception it throws.

  The program's state is the world together with the trace of the calls made so far.
\<close>

datatype event =
    EvWriteFile jsstring jsstring
  | EvUnlink jsstring
  | EvExec jsstring
  | EvReadFile jsstring

record 'w host =
  tmpdir :: jsstring
  homedir :: jsstring
  toLowerCase :: "jsstring \<Rightarrow> jsstring"
  dateNow :: "'w \<Rightarrow> int \<times> 'w"
  writeFileSync :: "jsstring \<Rightarrow> jsstring \<Rightarrow> 'w \<Rightarrow> jsstring option \<times> 'w"
  unlinkSync :: "jsstring \<Rightarrow> 'w \<Rightarrow> jsstring option \<times> 'w"
  execAsync :: "jsstring \<Rightarrow> 'w \<Rightarrow> (jsstring + jsstring \<times> jsstring) \<times> 'w"
  readFile :: "jsstring \<Rightarrow> 'w \<Rightarrow> (jsstring + jsstring) \<times> 'w"
  dateParse :: "jsstring \<Rightarrow> int option"

record 'w state =
  world :: 'w
  trace :: "event list"

text \<open>
  A thrown \<open>Error\<close> is a value carrying its message. An operation of the program takes
  the state and returns its result, or the error it throws, with the new state.
\<close>

datatype error = Error jsstring

type_synonym ('w, 'a) io = "'w state \<Rightarrow> (error + 'a) \<times> 'w state"

definition bindE :: "('w, 'a) io \<Rightarrow> ('a \<Rightarrow> ('w, 'b) io) \<Rightarrow> ('w, 'b) io" where
  "bindE m f s = (case m s of (Inl e, s') \<Rightarrow> (Inl e, s') | (Inr a, s') \<Rightarrow> f a s')"

definition returnE :: "'a \<Rightarrow> ('w, 'a) io" where
  "returnE a s = (Inr a, s)"

definition throwE :: "jsstring \<Rightarrow> ('w, 'a) io" where
  "throwE msg s = (Inl (Error msg), s)"

text \<open>
  \<open>try { body } catch (error) { throw new Error(context + error.message) }\<close>: the
  wrapper every operation of \<open>tools/\<close> puts around its body.
\<close>

definition catchRethrow :: "jsstring \<Rightarrow> ('w, 'a) io \<Rightarrow> ('w, 'a) io" where
  "catchRethrow context body s =
     (case body s of
        (Inl (Error msg), s') \<Rightarrow> (Inl (Error (context @ msg)), s')
      | (Inr a, s') \<Rightarrow> (Inr a, s'))"

text \<open>\<open>try { body } finally { cleanup }\<close> for a cleanup that cannot throw.\<close>

definition finallyDo :: "('w, 'a) io \<Rightarrow> ('w state \<Rightarrow> 'w state) \<Rightarrow> ('w, 'a) io" where
  "finallyDo body cleanup s = (case body s of (r, s') \<Rightarrow> (r, cleanup s'))"

text \<open>
  \<open>path.join(dir, name)\<close> for a directory as \<open>os.tmpdir()\<close> and \<open>os.homedir()\<close> return
  it (normalised, no trailing separator) and a relative path that is already normalised.
\<close>

definition path_join :: "jsstring \<Rightarrow> jsstring \<Rightarrow> jsstring" where
  "path_join dir name = dir @ js ''/'' @ name"

text \<open>\<open>writeTempXml\<close>, \<open>cleanupTempFile\<close> of \<open>tools/macros.ts\<close>.\<close>

definition tempPathAt :: "'w host \<Rightarrow> int \<Rightarrow> jsstring" where
  "tempPathAt h now =
     path_join (tmpdir h) (js ''km_action_'' @ numberToString now @ js ''.plist'')"

definition writeTempXml :: "'w host \<Rightarrow> jsstring \<Rightarrow> ('w, jsstring) io" where
  "writeTempXml h xml s =
     (case dateNow h (world s) of (now, w1) \<Rightarrow>
        let tempPath = tempPathAt h now;
            content = wrapXmlInPlist xml
        in case writeFileSync h tempPath content w1 of (r, w2) \<Rightarrow>
             let s' = \<lparr>world = w2, trace = trace s @ [EvWriteFile tempPath content]\<rparr>
             in (case r of
                   Some msg \<Rightarrow> (Inl (Error msg), s')
                 | None \<Rightarrow> (Inr tempPath, s')))"

definition cleanupTempFile :: "'w host \<Rightarrow> jsstring \<Rightarrow> 'w state \<Rightarrow> 'w state" where
  "cleanupTempFile h filePath s =
     (case unlinkSync h filePath (world s) of (r, w') \<Rightarrow>
        \<lparr>world = w', trace = trace s @ [EvUnlink filePath]\<rparr>)"

text \<open>
  \<open>runAppleScript\<close>, \<open>runAppleScriptFile\<close> of \<open>utils/applescript.ts\<close>. The \<open>stderr\<close> text
  is only written to the console.
\<close>

definition runAppleScript :: "'w host \<Rightarrow> jsstring \<Rightarrow> ('w, jsstring) io" where
  \<open>runAppleScript h script s =
     (let cmd = js ''osascript -e '' @ [0x27]
                @ replaceAll 0x27 ([0x27, backslash, 0x27, 0x27]) script @ [0x27]
      in case execAsync h cmd (world s) of (r, w') \<Rightarrow>
           let s' = \<lparr>world = w', trace = trace s @ [EvExec cmd]\<rparr>
           in (case r of
                 Inl msg \<Rightarrow> (Inl (Error (js ''AppleScript error: '' @ msg)), s')
               | Inr (stdout, stderr) \<Rightarrow> (Inr (trim stdout), s')))\<close>

definition runAppleScriptFile :: "'w host \<Rightarrow> jsstring \<Rightarrow> ('w, jsstring) io" where
  \<open>runAppleScriptFile h script s =
     (let cmd = js ''osascript <<'APPLESCRIPT'\<newline>'' @ script @ js ''\<newline>APPLESCRIPT''
      in case execAsync h cmd (world s) of (r, w') \<Rightarrow>
           let s' = \<lparr>world = w', trace = trace s @ [EvExec cmd]\<rparr>
           in (case r of
                 Inl msg \<Rightarrow> (Inl (Error (js ''AppleScript error: '' @ msg)), s')
               | Inr (stdout, stderr) \<Rightarrow> (Inr (trim stdout), s')))\<close>

section \<open>Script builders of \<open>tools/macros.ts\<close> and \<open>tools/variables.ts\<close>\<close>

text \<open>
  Each builder is the template literal of the operation it is named after, with the
  interpolated expressions in place. Positions are numbers and are printed in decimal.
\<close>

definition listMacros_script :: "jsstring" where
  \<open>listMacros_script  =
     js ''\<newline>''
     @ js ''tell application "Keyboard Maestro"\<newline>''
     @ js ''  set oldDelims to AppleScript's text item delimiters\<newline>''
     @ js ''  set AppleScript's text item delimiters to ";;;"\<newline>''
     @ js ''  \<newline>''
     @ js ''  set idList to id of every macro\<newline>''
     @ js ''  set nameList to name of every macro\<newline>''
     @ js ''  set countMacros to count of idList\<newline>''
     @ js ''  \<newline>''
     @ js ''  set resultList to {}\<newline>''
     @ js ''  repeat with i from 1 to countMacros\<newline>''
     @ js ''    set end of resultList to (item i of nameList) & "|||" & (item i of idList)\<newline>''
     @ js ''  end repeat\<newline>''
     @ js ''  \<newline>''
     @ js ''  set output to resultList as text\<newline>''
     @ js ''  set AppleScript's text item delimiters to oldDelims\<newline>''
     @ js ''  return output\<newline>''
     @ js ''end tell''\<close>

definition searchMacros_script :: "jsstring \<Rightarrow> jsstring" where
  \<open>searchMacros_script escapedQuery =
     js ''\<newline>''
     @ js ''tell application "Keyboard Maestro"\<newline>''
     @ js ''  set oldDelims to AppleScript's text item delimiters\<newline>''
     @ js ''  set AppleScript's text item delimiters to ";;;"\<newline>''
     @ js ''  \<newline>''
     @ js ''  set matchMacros to every macro whose name contains "'' @ escapedQuery @ js ''"\<newline>''
     @ js ''  \<newline>''
     @ js ''  set resultList to {}\<newline>''
     @ js ''  repeat with aMacro in matchMacros\<newline>''
     @ js ''    set end of resultList to (name of aMacro) & "|||" & (id of aMacro)\<newline>''
     @ js ''  end repeat\<newline>''
     @ js ''  \<newline>''
     @ js ''  set output to resultList as text\<newline>''
     @ js ''  set AppleScript's text item delimiters to oldDelims\<newline>''
     @ js ''  return output\<newline>''
     @ js ''end tell''\<close>

definition getMacro_script :: "jsstring \<Rightarrow> jsstring" where
  \<open>getMacro_script identifier =
     js ''\<newline>''
     @ js ''tell application "Keyboard Maestro"\<newline>''
     @ js ''  set theMacro to first macro whose name is "'' @ identifier @ js ''" or id is "'' @ identifier @ js ''"\<newline>''
     @ js ''  return name of theMacro & "|" & id of theMacro & "|" & enabled of theMacro\<newline>''
     @ js ''end tell''\<close>

definition getMacroXml_script :: "jsstring \<Rightarrow> jsstring" where
  \<open>getMacroXml_script identifier =
     js ''\<newline>''
     @ js ''tell application "Keyboard Maestro"\<newline>''
     @ js ''  set theMacro to first macro whose name is "'' @ identifier @ js ''" or id is "'' @ identifier @ js ''"\<newline>''
     @ js ''  return xml of theMacro\<newline>''
     @ js ''end tell''\<close>

definition addAction_countScript :: "jsstring \<Rightarrow> jsstring" where
  \<open>addAction_countScript macroIdentifier =
     js ''\<newline>''
     @ js ''tell application "Keyboard Maestro"\<newline>''
     @ js ''  set theMacro to first macro whose name is "'' @ macroIdentifier @ js ''" or id is "'' @ macroIdentifier @ js ''"\<newline>''
     @ js ''  return count of actions of theMacro\<newline>''
     @ js ''end tell''\<close>

definition addAction_script :: "jsstring \<Rightarrow> jsstring \<Rightarrow> jsstring" where
  \<open>addAction_script tempPath macroIdentifier =
     js ''\<newline>''
     @ js ''set xmlContent to read POSIX file "'' @ tempPath @ js ''" as '' @ [0xAB] @ js ''class utf8'' @ [0xBB] @ js ''\<newline>''
     @ js ''tell application "Keyboard Maestro"\<newline>''
     @ js ''  set theMacro to first macro whose name is "'' @ macroIdentifier @ js ''" or id is "'' @ macroIdentifier @ js ''"\<newline>''
     @ js ''  tell theMacro\<newline>''
     @ js ''    make new action with properties {xml:xmlContent}\<newline>''
     @ js ''  end tell\<newline>''
     @ js ''end tell''\<close>

definition addTrigger_script :: "jsstring \<Rightarrow> jsstring \<Rightarrow> jsstring" where
  \<open>addTrigger_script tempPath macroIdentifier =
     js ''\<newline>''
     @ js ''set xmlContent to read POSIX file "'' @ tempPath @ js ''" as '' @ [0xAB] @ js ''class utf8'' @ [0xBB] @ js ''\<newline>''
     @ js ''tell application "Keyboard Maestro"\<newline>''
     @ js ''  set theMacro to first macro whose name is "'' @ macroIdentifier @ js ''" or id is "'' @ macroIdentifier @ js ''"\<newline>''
     @ js ''  tell theMacro\<newline>''
     @ js ''    make new trigger with properties {xml:xmlContent}\<newline>''
     @ js ''  end tell\<newline>''
     @ js ''end tell''\<close>

definition deleteTrigger_script :: "jsstring \<Rightarrow> int \<Rightarrow> jsstring" where
  \<open>deleteTrigger_script macroIdentifier triggerIndex =
     js ''\<newline>''
     @ js ''tell application "Keyboard Maestro"\<newline>''
     @ js ''  set theMacro to first macro whose name is "'' @ macroIdentifier @ js ''" or id is "'' @ macroIdentifier @ js ''"\<newline>''
     @ js ''  tell theMacro\<newline>''
     @ js ''    delete trigger '' @ numberToString triggerIndex @ js ''\<newline>''
     @ js ''  end tell\<newline>''
     @ js ''end tell''\<close>

definition deleteMacro_script :: "jsstring \<Rightarrow> jsstring" where
  \<open>deleteMacro_script identifier =
     js ''\<newline>''
     @ js ''tell application "Keyboard Maestro"\<newline>''
     @ js ''  delete (first macro whose name is "'' @ identifier @ js ''" or id is "'' @ identifier @ js ''")\<newline>''
     @ js ''end tell''\<close>

definition listGroups_script :: "jsstring" where
  \<open>listGroups_script  =
     js ''\<newline>''
     @ js ''tell application "Keyboard Maestro"\<newline>''
     @ js ''  set oldDelims to AppleScript's text item delimiters\<newline>''
     @ js ''  set AppleScript's text item delimiters to ";;;"\<newline>''
     @ js ''  set groupList to {}\<newline>''
     @ js ''  repeat with aGroup in macro groups\<newline>''
     @ js ''    set end of groupList to (name of aGroup & "|||" & id of aGroup)\<newline>''
     @ js ''  end repeat\<newline>''
     @ js ''  set resultList to groupList as text\<newline>''
     @ js ''  set AppleScript's text item delimiters to oldDelims\<newline>''
     @ js ''  return resultList\<newline>''
     @ js ''end tell''\<close>

definition getActionXml_script :: "jsstring \<Rightarrow> int \<Rightarrow> jsstring" where
  \<open>getActionXml_script macroIdentifier actionIndex =
     js ''\<newline>''
     @ js ''tell application "Keyboard Maestro"\<newline>''
     @ js ''  set theMacro to first macro whose name is "'' @ macroIdentifier @ js ''" or id is "'' @ macroIdentifier @ js ''"\<newline>''
     @ js ''  tell theMacro\<newline>''
     @ js ''    return xml of action '' @ numberToString actionIndex @ js ''\<newline>''
     @ js ''  end tell\<newline>''
     @ js ''end tell''\<close>

definition setActionXml_script :: "jsstring \<Rightarrow> jsstring \<Rightarrow> int \<Rightarrow> jsstring" where
  \<open>setActionXml_script tempPath macroIdentifier actionIndex =
     js ''\<newline>''
     @ js ''set xmlContent to read POSIX file "'' @ tempPath @ js ''" as '' @ [0xAB] @ js ''class utf8'' @ [0xBB] @ js ''\<newline>''
     @ js ''tell application "Keyboard Maestro"\<newline>''
     @ js ''  set theMacro to first macro whose name is "'' @ macroIdentifier @ js ''" or id is "'' @ macroIdentifier @ js ''"\<newline>''
     @ js ''  tell theMacro\<newline>''
     @ js ''    set xml of action '' @ numberToString actionIndex @ js '' to xmlContent\<newline>''
     @ js ''  end tell\<newline>''
     @ js ''end tell''\<close>

definition deleteAction_script :: "jsstring \<Rightarrow> int \<Rightarrow> jsstring" where
  \<open>deleteAction_script macroIdentifier actionIndex =
     js ''\<newline>''
     @ js ''tell application "Keyboard Maestro"\<newline>''
     @ js ''  set theMacro to first macro whose name is "'' @ macroIdentifier @ js ''" or id is "'' @ macroIdentifier @ js ''"\<newline>''
     @ js ''  tell theMacro\<newline>''
     @ js ''    delete action '' @ numberToString actionIndex @ js ''\<newline>''
     @ js ''  end tell\<newline>''
     @ js ''end tell''\<close>

definition searchReplaceInAction_script :: "jsstring \<Rightarrow> int \<Rightarrow> jsstring \<Rightarrow> jsstring \<Rightarrow> jsstring" where
  \<open>searchReplaceInAction_script macroIdentifier actionIndex escapedSearch escapedReplace =
     js ''\<newline>''
     @ js ''tell application "Keyboard Maestro"\<newline>''
     @ js ''  set theMacro to first macro whose name is "'' @ macroIdentifier @ js ''" or id is "'' @ macroIdentifier @ js ''"\<newline>''
     @ js ''  tell theMacro\<newline>''
     @ js ''    set theXML to xml of action '' @ numberToString actionIndex @ js ''\<newline>''
     @ js ''    tell application "Keyboard Maestro Engine"\<newline>''
     @ js ''      set fixedXML to search theXML for "'' @ escapedSearch @ js ''" replace "'' @ escapedReplace @ js ''" regex false case sensitive true process tokens false\<newline>''
     @ js ''    end tell\<newline>''
     @ js ''    set xml of action '' @ numberToString actionIndex @ js '' to fixedXML\<newline>''
     @ js ''  end tell\<newline>''
     @ js ''end tell''\<close>

definition listActions_script :: "jsstring \<Rightarrow> jsstring" where
  \<open>listActions_script macroIdentifier =
     js ''\<newline>''
     @ js ''tell application "Keyboard Maestro"\<newline>''
     @ js ''  set theMacro to first macro whose name is "'' @ macroIdentifier @ js ''" or id is "'' @ macroIdentifier @ js ''"\<newline>''
     @ js ''  set resultList to {}\<newline>''
     @ js ''  set actionCount to count of actions of theMacro\<newline>''
     @ js ''  \<newline>''
     @ js ''  repeat with i from 1 to actionCount\<newline>''
     @ js ''    set theAction to action i of theMacro\<newline>''
     @ js ''    set actionName to name of theAction\<newline>''
     @ js ''    set actionEnabled to enabled of theAction\<newline>''
     @ js ''    set end of resultList to (i as text) & "|||" & actionName & "|||" & (actionEnabled as text)\<newline>''
     @ js ''  end repeat\<newline>''
     @ js ''  \<newline>''
     @ js ''  set oldDelims to AppleScript's text item delimiters\<newline>''
     @ js ''  set AppleScript's text item delimiters to ";;;"\<newline>''
     @ js ''  set output to resultList as text\<newline>''
     @ js ''  set AppleScript's text item delimiters to oldDelims\<newline>''
     @ js ''  return output\<newline>''
     @ js ''end tell''\<close>

text \<open>
  The parameters of \<open>moveAction\<close> come straight from the call (the handler in \<open>index.ts\<close>
  checks none of them), so each may be \<open>undefined\<close>.
\<close>

definition moveAction_script :: "jsstring option \<Rightarrow> int option \<Rightarrow> int option \<Rightarrow> jsstring" where
  \<open>moveAction_script macroIdentifier actionIndex newIndex =
     js ''\<newline>''
     @ js ''tell application "Keyboard Maestro"\<newline>''
     @ js ''  set theMacro to first macro whose name is "'' @ templateString macroIdentifier @ js ''" or id is "'' @ templateString macroIdentifier @ js ''"\<newline>''
     @ js ''  tell theMacro\<newline>''
     @ js ''    if '' @ templateNumber newIndex @ js '' > count of actions then\<newline>''
     @ js ''      move action '' @ templateNumber actionIndex @ js '' to after last action\<newline>''
     @ js ''    else\<newline>''
     @ js ''      move action '' @ templateNumber actionIndex @ js '' to before action '' @ templateNumber newIndex @ js ''\<newline>''
     @ js ''    end if\<newline>''
     @ js ''  end tell\<newline>''
     @ js ''end tell''\<close>

definition getTriggerXml_script :: "jsstring \<Rightarrow> int \<Rightarrow> jsstring" where
  \<open>getTriggerXml_script macroIdentifier triggerIndex =
     js ''\<newline>''
     @ js ''tell application "Keyboard Maestro"\<newline>''
     @ js ''  set theMacro to first macro whose name is "'' @ macroIdentifier @ js ''" or id is "'' @ macroIdentifier @ js ''"\<newline>''
     @ js ''  tell theMacro\<newline>''
     @ js ''    return xml of trigger '' @ numberToString triggerIndex @ js ''\<newline>''
     @ js ''  end tell\<newline>''
     @ js ''end tell''\<close>

definition setTriggerXml_script :: "jsstring \<Rightarrow> jsstring \<Rightarrow> int \<Rightarrow> jsstring" where
  \<open>setTriggerXml_script tempPath macroIdentifier triggerIndex =
     js ''\<newline>''
     @ js ''set xmlContent to read POSIX file "'' @ tempPath @ js ''" as '' @ [0xAB] @ js ''class utf8'' @ [0xBB] @ js ''\<newline>''
     @ js ''tell application "Keyboard Maestro"\<newline>''
     @ js ''  set theMacro to first macro whose name is "'' @ macroIdentifier @ js ''" or id is "'' @ macroIdentifier @ js ''"\<newline>''
     @ js ''  tell theMacro\<newline>''
     @ js ''    set xml of trigger '' @ numberToString triggerIndex @ js '' to xmlContent\<newline>''
     @ js ''  end tell\<newline>''
     @ js ''end tell''\<close>

section \<open>Operations of \<open>tools/macros.ts\<close>\<close>

text \<open>
  Escaping as the operations do it: \<open>s.replace(/"/g, '\\"')\<close> puts a backslash before
  every double quote; \<open>searchReplaceInAction\<close> first doubles every backslash.
\<close>

definition escapeQuotes :: "jsstring \<Rightarrow> jsstring" where
  "escapeQuotes s = replaceAll dquote [backslash, dquote] s"

definition escapeBackslashesAndQuotes :: "jsstring \<Rightarrow> jsstring" where
  "escapeBackslashesAndQuotes s =
     replaceAll dquote [backslash, dquote] (replaceAll backslash [backslash, backslash] s)"

text \<open>
  Result decoding. \<open>const [a, b] = item.split('|||')\<close> reads the first pieces of the
  split; a piece that is not there is \<open>undefined\<close>, here \<open>None\<close>.
\<close>

definition piece :: "jsstring list \<Rightarrow> nat \<Rightarrow> jsstring option" where
  "piece parts i = (if i < length parts then Some (parts ! i) else None)"

text \<open>\<open>x || ''\<close> for a string or \<open>undefined\<close>.\<close>

definition orEmpty :: "jsstring option \<Rightarrow> jsstring" where
  "orEmpty x = (case x of None \<Rightarrow> [] | Some s \<Rightarrow> s)"

record macroInfo =
  infoName :: jsstring
  infoUid :: jsstring

record macroGroup =
  groupName :: jsstring
  groupUid :: jsstring

record actionInfo =
  actionPos :: "int option"
  actionName :: "jsstring option"
  actionEnabled :: bool

definition listMacros_decode :: "jsstring \<Rightarrow> macroInfo list" where
  "listMacros_decode result =
     (if trim result = [] then []
      else map (\<lambda>item. let parts = split (js ''|||'') item
                       in \<lparr>infoName = orEmpty (piece parts 0), infoUid = orEmpty (piece parts 1)\<rparr>)
             (split (js '';;;'') result))"

definition listMacros :: "'w host \<Rightarrow> ('w, macroInfo list) io" where
  "listMacros h =
     catchRethrow (js ''Failed to list macros: '')
       (bindE (runAppleScriptFile h listMacros_script) (\<lambda>result.
          returnE (listMacros_decode result)))"

definition searchMacros :: "'w host \<Rightarrow> jsstring \<Rightarrow> ('w, macroInfo list) io" where
  "searchMacros h query =
     (let escapedQuery = escapeQuotes query
      in catchRethrow (js ''Failed to search macros: '')
           (bindE (runAppleScriptFile h (searchMacros_script escapedQuery)) (\<lambda>result.
              returnE (listMacros_decode result))))"

definition listGroups_decode :: "jsstring \<Rightarrow> macroGroup list" where
  "listGroups_decode result =
     (if trim result = [] then []
      else filter (\<lambda>g. groupName g \<noteq> [])
             (map (\<lambda>item. let parts = split (js ''|||'') item
                          in \<lparr>groupName = orEmpty (map_option trim (piece parts 0)),
                              groupUid = orEmpty (map_option trim (piece parts 1))\<rparr>)
                (split (js '';;;'') result)))"

definition listGroups :: "'w host \<Rightarrow> ('w, macroGroup list) io" where
  "listGroups h =
     catchRethrow (js ''Failed to list groups: '')
       (bindE (runAppleScriptFile h listGroups_script) (\<lambda>result.
          returnE (listGroups_decode result)))"

definition listActions_decode :: "jsstring \<Rightarrow> actionInfo list" where
  "listActions_decode result =
     (if trim result = [] then []
      else map (\<lambda>item. let parts = split (js ''|||'') item
                       in \<lparr>actionPos = parseInt (orEmpty (piece parts 0)),
                           actionName = piece parts 1,
                           actionEnabled = (piece parts 2 = Some (js ''true''))\<rparr>)
             (split (js '';;;'') result))"

definition listActions :: "'w host \<Rightarrow> jsstring \<Rightarrow> ('w, actionInfo list) io" where
  "listActions h macroIdentifier =
     catchRethrow (js ''Failed to list actions: '')
       (bindE (runAppleScriptFile h (listActions_script macroIdentifier)) (\<lambda>result.
          returnE (listActions_decode result)))"

definition addAction :: "'w host \<Rightarrow> jsstring \<Rightarrow> jsstring \<Rightarrow> ('w, jsstring) io" where
  \<open>addAction h macroIdentifier actionXml =
     bindE (writeTempXml h actionXml) (\<lambda>tempPath.
       finallyDo
         (catchRethrow (js ''Failed to add action: '')
            (bindE (runAppleScriptFile h (addAction_countScript macroIdentifier)) (\<lambda>out1.
               let beforeCount = parseIntOr0 out1 in
               bindE (runAppleScriptFile h (addAction_script tempPath macroIdentifier)) (\<lambda>_.
                 bindE (runAppleScriptFile h (addAction_countScript macroIdentifier)) (\<lambda>out2.
                   let afterCount = parseIntOr0 out2 in
                   if afterCount \<le> beforeCount
                   then throwE (js ''Action was not created - XML may be invalid or malformed'')
                   else returnE (js ''Action added to macro "'' @ macroIdentifier @ js ''"''))))))
         (cleanupTempFile h tempPath))\<close>

definition addTrigger :: "'w host \<Rightarrow> jsstring \<Rightarrow> jsstring \<Rightarrow> ('w, jsstring) io" where
  \<open>addTrigger h macroIdentifier triggerXml =
     bindE (writeTempXml h triggerXml) (\<lambda>tempPath.
       finallyDo
         (catchRethrow (js ''Failed to add trigger: '')
            (bindE (runAppleScriptFile h (addTrigger_script tempPath macroIdentifier)) (\<lambda>_.
               returnE (js ''Trigger added to macro "'' @ macroIdentifier @ js ''"''))))
         (cleanupTempFile h tempPath))\<close>

definition deleteTrigger :: "'w host \<Rightarrow> jsstring \<Rightarrow> int \<Rightarrow> ('w, jsstring) io" where
  \<open>deleteTrigger h macroIdentifier triggerIndex =
     catchRethrow (js ''Failed to delete trigger: '')
       (bindE (runAppleScriptFile h (deleteTrigger_script macroIdentifier triggerIndex)) (\<lambda>_.
          returnE (js ''Trigger '' @ numberToString triggerIndex @ js '' deleted from macro "''
                   @ macroIdentifier @ js ''"'')))\<close>

definition getActionXml :: "'w host \<Rightarrow> jsstring \<Rightarrow> int \<Rightarrow> ('w, jsstring) io" where
  "getActionXml h macroIdentifier actionIndex =
     catchRethrow (js ''Failed to get action XML: '')
       (runAppleScriptFile h (getActionXml_script macroIdentifier actionIndex))"

definition setActionXml :: "'w host \<Rightarrow> jsstring \<Rightarrow> int \<Rightarrow> jsstring \<Rightarrow> ('w, jsstring) io" where
  \<open>setActionXml h macroIdentifier actionIndex xml =
     bindE (writeTempXml h xml) (\<lambda>tempPath.
       finallyDo
         (catchRethrow (js ''Failed to set action XML: '')
            (bindE (runAppleScriptFile h (setActionXml_script tempPath macroIdentifier actionIndex))
               (\<lambda>_. returnE (js ''Action '' @ numberToString actionIndex @ js '' in macro "''
                              @ macroIdentifier @ js ''" updated successfully''))))
         (cleanupTempFile h tempPath))\<close>

definition deleteAction :: "'w host \<Rightarrow> jsstring \<Rightarrow> int \<Rightarrow> ('w, jsstring) io" where
  \<open>deleteAction h macroIdentifier actionIndex =
     catchRethrow (js ''Failed to delete action: '')
       (bindE (runAppleScriptFile h (deleteAction_script macroIdentifier actionIndex)) (\<lambda>_.
          returnE (js ''Action '' @ numberToString actionIndex @ js '' deleted from macro "''
                   @ macroIdentifier @ js ''"'')))\<close>

definition searchReplaceInAction ::
  "'w host \<Rightarrow> jsstring \<Rightarrow> int \<Rightarrow> jsstring \<Rightarrow> jsstring \<Rightarrow> ('w, jsstring) io" where
  \<open>searchReplaceInAction h macroIdentifier actionIndex searchText replaceText =
     catchRethrow (js ''Failed to search/replace in action: '')
       (let escapedSearch = escapeBackslashesAndQuotes searchText;
            escapedReplace = escapeBackslashesAndQuotes replaceText
        in bindE (runAppleScriptFile h
                    (searchReplaceInAction_script macroIdentifier actionIndex escapedSearch
                       escapedReplace))
             (\<lambda>_. returnE (js ''Replaced "'' @ searchText @ js ''" with "'' @ replaceText
                            @ js ''" in action '' @ numberToString actionIndex
                            @ js '' of macro "'' @ macroIdentifier @ js ''"'')))\<close>

definition moveAction ::
  "'w host \<Rightarrow> jsstring option \<Rightarrow> int option \<Rightarrow> int option \<Rightarrow> ('w, jsstring) io" where
  \<open>moveAction h macroIdentifier actionIndex newIndex =
     catchRethrow (js ''Failed to move action: '')
       (bindE (runAppleScriptFile h (moveAction_script macroIdentifier actionIndex newIndex))
          (\<lambda>_. returnE (js ''Moved action '' @ templateNumber actionIndex @ js '' to index ''
                         @ templateNumber newIndex @ js '' in macro "''
                         @ templateString macroIdentifier @ js ''"'')))\<close>

definition getTriggerXml :: "'w host \<Rightarrow> jsstring \<Rightarrow> int \<Rightarrow> ('w, jsstring) io" where
  "getTriggerXml h macroIdentifier triggerIndex =
     catchRethrow (js ''Failed to get trigger XML: '')
       (runAppleScriptFile h (getTriggerXml_script macroIdentifier triggerIndex))"

definition setTriggerXml :: "'w host \<Rightarrow> jsstring \<Rightarrow> int \<Rightarrow> jsstring \<Rightarrow> ('w, jsstring) io" where
  \<open>setTriggerXml h macroIdentifier triggerIndex xml =
     bindE (writeTempXml h xml) (\<lambda>tempPath.
       finallyDo
         (catchRethrow (js ''Failed to set trigger XML: '')
            (bindE (runAppleScriptFile h (setTriggerXml_script tempPath macroIdentifier triggerIndex))
               (\<lambda>_. returnE (js ''Trigger '' @ numberToString triggerIndex @ js '' in macro "''
                              @ macroIdentifier @ js ''" updated successfully''))))
         (cleanupTempFile h tempPath))\<close>

section \<open>Operations of \<open>tools/variables.ts\<close>\<close>

definition setVariable_script :: "jsstring \<Rightarrow> jsstring \<Rightarrow> jsstring" where
  \<open>setVariable_script name escapedValue =
     js ''tell application "Keyboard Maestro Engine" to setvariable "'' @ name
     @ js ''" to "'' @ escapedValue @ js ''"''\<close>

definition setVariable :: "'w host \<Rightarrow> jsstring \<Rightarrow> jsstring \<Rightarrow> ('w, jsstring) io" where
  \<open>setVariable h name val =
     catchRethrow (js ''Failed to set variable "'' @ name @ js ''": '')
       (let escapedValue = escapeQuotes val
        in bindE (runAppleScript h (setVariable_script name escapedValue)) (\<lambda>_.
             returnE (js ''Variable "'' @ name @ js ''" set successfully'')))\<close>

section \<open>Traces and example hosts\<close>

text \<open>Lower-casing of the letters \<open>A\<close> to \<open>Z\<close>; every other code unit is left as it is.\<close>

definition asciiLower :: "jschar \<Rightarrow> jschar" where
  "asciiLower c = (if 0x41 \<le> c \<and> c \<le> 0x5A then c + 0x20 else c)"



text \<open>
  Two hosts for concrete runs. On \<open>stuckHost\<close> every call succeeds, the clock stands at
  one millisecond and every script prints \<open>3\<close>: an engine that accepts every script and
  changes nothing. On \<open>brokenHost\<close> every process run and every deletion fails.
\<close>

definition stuckHost :: "unit host" where
  "stuckHost =
     \<lparr>tmpdir = js ''/tmp'',
      homedir = js ''/Users/me'',
      toLowerCase = map asciiLower,
      dateNow = (\<lambda>w. (1700000000000, w)),
      writeFileSync = (\<lambda>p c w. (None, w)),
      unlinkSync = (\<lambda>p w. (None, w)),
      execAsync = (\<lambda>cmd w. (Inr (js ''3\<newline>'', []), w)),
      readFile = (\<lambda>p w. (Inl (js ''ENOENT''), w)),
      dateParse = (\<lambda>t. None)\<rparr>"

definition brokenHost :: "unit host" where
  "brokenHost =
     \<lparr>tmpdir = js ''/tmp'',
      homedir = js ''/Users/me'',
      toLowerCase = map asciiLower,
      dateNow = (\<lambda>w. (1700000000000, w)),
      writeFileSync = (\<lambda>p c w. (None, w)),
      unlinkSync = (\<lambda>p w. (Some (js ''EPERM''), w)),
      execAsync = (\<lambda>cmd w. (Inl (js ''Command failed''), w)),
      readFile = (\<lambda>p w. (Inl (js ''ENOENT''), w)),
      dateParse = (\<lambda>t. None)\<rparr>"

definition state0 :: "unit state" where
  "state0 = \<lparr>world = (), trace = []\<rparr>"




text \<open>The number a string of decimal digits denotes.\<close>

definition decimalValue :: "jsstring \<Rightarrow> nat" where
  "decimalValue ds = foldl (\<lambda>acc c. acc * 10 + unat (c - 48)) 0 ds"

section \<open>AppleScript text: string literals and the script of \<open>moveAction\<close>\<close>

text \<open>
  A text placed between two double quotes stays inside that one string literal when it
  holds no double quote and no backslash but as part of an escape: a backslash takes the
  character after it, and must have one.
\<close>

fun staysInLiteral :: "jsstring \<Rightarrow> bool" where
  "staysInLiteral [] = True"
| "staysInLiteral [c] = (c \<noteq> dquote \<and> c \<noteq> backslash)"
| "staysInLiteral (c # d # cs) =
     (if c = dquote then False
      else if c = backslash then staysInLiteral cs
      else staysInLiteral (d # cs))"

text \<open>
  Modelled from the spec: the engine's side of \<open>moveAction\<close>. The engine that runs the
  script (AppleScript, through \<open>osascript\<close>) is no part of the repository; what is
  modelled is the way it reads the one script \<open>moveAction\<close> writes and which move it is
  then asked for, after the spec's words that moving action 1 to new index 5 in a
  4-action macro means "move to the end", not an out-of-range failure. \<open>place\<close> and \<open>stmt\<close>
  are the statements of that script; \<open>expect\<close>, \<open>readLiteral\<close>, \<open>readNumber\<close> and
  \<open>readMoveScript\<close> read them from the text of a script, character by character; and
  \<open>command\<close> is the move a statement asks for in a macro of a given number of actions:
  \<open>if n > count of actions then a else b end if\<close> runs \<open>a\<close> when \<open>n\<close> exceeds the count and
  \<open>b\<close> otherwise.
\<close>

datatype place = AfterLastAction | BeforeAction int

datatype stmt =
    Move int place
  | IfExceedsCount int stmt stmt

text \<open>Modelled from the spec: the rest of the text after the given words, if it starts with them.\<close>

fun expect :: "jsstring \<Rightarrow> jsstring \<Rightarrow> jsstring option" where
  "expect [] s = Some s"
| "expect (c # cs) [] = None"
| "expect (c # cs) (d # ds) = (if c = d then expect cs ds else None)"

text \<open>
  Modelled from the spec: the text of a string literal whose opening quote has been read,
  up to its closing quote, and the rest of the script after that quote. A backslash takes
  the character after it into the literal.
\<close>

fun readLiteral :: "jsstring \<Rightarrow> (jsstring \<times> jsstring) option" where
  "readLiteral [] = None"
| "readLiteral [c] = (if c = dquote then Some ([], []) else None)"
| "readLiteral (c # d # cs) =
     (if c = dquote then Some ([], d # cs)
      else if c = backslash then map_option (\<lambda>(x, r). (c # d # x, r)) (readLiteral cs)
      else map_option (\<lambda>(x, r). (c # x, r)) (readLiteral (d # cs)))"

text \<open>Modelled from the spec: an integer in decimal, with its sign, and the rest of the script.\<close>

definition readNumber :: "jsstring \<Rightarrow> (int \<times> jsstring) option" where
  "readNumber s =
     (let negative = (s \<noteq> [] \<and> hd s = 0x2D);
          s1 = (if negative then tl s else s);
          ds = takeWhile isDigit s1
      in if ds = [] then None
         else Some ((if negative then - int (decimalValue ds) else int (decimalValue ds)),
                    dropWhile isDigit s1))"

text \<open>
  Modelled from the spec: the script of \<open>moveAction\<close> read from its text: the two literals
  the macro is looked up by, and the conditional inside \<open>tell theMacro\<close>.
\<close>

definition readMoveScript :: "jsstring \<Rightarrow> (jsstring \<times> jsstring \<times> stmt) option" where
  \<open>readMoveScript script =
     Option.bind (expect (js ''\<newline>tell application "Keyboard Maestro"\<newline>  set theMacro to first macro whose name is "'') script) (\<lambda>s1.
     Option.bind (readLiteral s1) (\<lambda>(name, s2).
     Option.bind (expect (js '' or id is "'') s2) (\<lambda>s3.
     Option.bind (readLiteral s3) (\<lambda>(ident, s4).
     Option.bind (expect (js ''\<newline>  tell theMacro\<newline>    if '') s4) (\<lambda>s5.
     Option.bind (readNumber s5) (\<lambda>(n, s6).
     Option.bind (expect (js '' > count of actions then\<newline>      move action '') s6) (\<lambda>s7.
     Option.bind (readNumber s7) (\<lambda>(a, s8).
     Option.bind (expect (js '' to after last action\<newline>    else\<newline>      move action '') s8) (\<lambda>s9.
     Option.bind (readNumber s9) (\<lambda>(b, s10).
     Option.bind (expect (js '' to before action '') s10) (\<lambda>s11.
     Option.bind (readNumber s11) (\<lambda>(m, s12).
     Option.bind (expect (js ''\<newline>    end if\<newline>  end tell\<newline>end tell'') s12) (\<lambda>s13.
       if s13 = [] then Some (name, ident, IfExceedsCount n (Move a AfterLastAction) (Move b (BeforeAction m)))
       else None)))))))))))))\<close>



section \<open>The tool handlers of \<open>index.ts\<close>\<close>

text \<open>
  The arguments of a call, for the parameters of the action and trigger editing tools. A
  parameter is absent (\<open>undefined\<close>, here \<open>None\<close>) or holds a value of the type the tool's
  schema declares for it: a string, or a number, taken as an integer.
\<close>

record toolArgs =
  argMacroIdentifier :: "jsstring option"
  argActionIndex :: "int option"
  argTriggerIndex :: "int option"
  argNewIndex :: "int option"
  argXml :: "jsstring option"
  argTriggerXml :: "jsstring option"
  argSearchText :: "jsstring option"
  argReplaceText :: "jsstring option"

text \<open>
  \<open>if (!x) throw ...\<close> lets a value pass when it is truthy: a string that is not empty, a
  number that is not \<open>0\<close>. These give the value that passed, if it did.
\<close>

definition truthyString :: "jsstring option \<Rightarrow> jsstring option" where
  "truthyString x = (case x of None \<Rightarrow> None | Some s \<Rightarrow> if s = [] then None else Some s)"

definition truthyNumber :: "int option \<Rightarrow> int option" where
  "truthyNumber x = (case x of None \<Rightarrow> None | Some n \<Rightarrow> if n = 0 then None else Some n)"

definition km_get_action_xml :: "'w host \<Rightarrow> toolArgs \<Rightarrow> ('w, jsstring) io" where
  "km_get_action_xml h args =
     (case truthyString (argMacroIdentifier args) of
        None \<Rightarrow> throwE (js ''macroIdentifier is required'')
      | Some macroId \<Rightarrow>
          (case truthyNumber (argActionIndex args) of
             None \<Rightarrow> throwE (js ''actionIndex is required'')
           | Some actionIdx \<Rightarrow> getActionXml h macroId actionIdx))"

definition km_set_action_xml :: "'w host \<Rightarrow> toolArgs \<Rightarrow> ('w, jsstring) io" where
  "km_set_action_xml h args =
     (case truthyString (argMacroIdentifier args) of
        None \<Rightarrow> throwE (js ''macroIdentifier is required'')
      | Some macroId \<Rightarrow>
          (case truthyNumber (argActionIndex args) of
             None \<Rightarrow> throwE (js ''actionIndex is required'')
           | Some actionIdx \<Rightarrow>
               (case truthyString (argXml args) of
                  None \<Rightarrow> throwE (js ''xml is required'')
                | Some xml \<Rightarrow> setActionXml h macroId actionIdx xml)))"

definition km_search_replace_action :: "'w host \<Rightarrow> toolArgs \<Rightarrow> ('w, jsstring) io" where
  "km_search_replace_action h args =
     (case truthyString (argMacroIdentifier args) of
        None \<Rightarrow> throwE (js ''macroIdentifier is required'')
      | Some macroId \<Rightarrow>
          (case truthyNumber (argActionIndex args) of
             None \<Rightarrow> throwE (js ''actionIndex is required'')
           | Some actionIdx \<Rightarrow>
               (case truthyString (argSearchText args) of
                  None \<Rightarrow> throwE (js ''searchText is required'')
                | Some searchText \<Rightarrow>
                    (case argReplaceText args of
                       None \<Rightarrow> throwE (js ''replaceText is required'')
                     | Some replaceText \<Rightarrow>
                         searchReplaceInAction h macroId actionIdx searchText replaceText))))"

definition km_delete_action :: "'w host \<Rightarrow> toolArgs \<Rightarrow> ('w, jsstring) io" where
  "km_delete_action h args =
     (case truthyString (argMacroIdentifier args) of
        None \<Rightarrow> throwE (js ''macroIdentifier is required'')
      | Some macroId \<Rightarrow>
          (case truthyNumber (argActionIndex args) of
             None \<Rightarrow> throwE (js ''actionIndex is required'')
           | Some actionIdx \<Rightarrow> deleteAction h macroId actionIdx))"

definition km_add_trigger :: "'w host \<Rightarrow> toolArgs \<Rightarrow> ('w, jsstring) io" where
  "km_add_trigger h args =
     (case truthyString (argMacroIdentifier args) of
        None \<Rightarrow> throwE (js ''macroIdentifier is required'')
      | Some macroId \<Rightarrow>
          (case truthyString (argTriggerXml args) of
             None \<Rightarrow> throwE (js ''triggerXml is required'')
           | Some triggerXml \<Rightarrow> addTrigger h macroId triggerXml))"

definition km_delete_trigger :: "'w host \<Rightarrow> toolArgs \<Rightarrow> ('w, jsstring) io" where
  "km_delete_trigger h args =
     (case truthyString (argMacroIdentifier args) of
        None \<Rightarrow> throwE (js ''macroIdentifier is required'')
      | Some macroId \<Rightarrow>
          (case truthyNumber (argTriggerIndex args) of
             None \<Rightarrow> throwE (js ''triggerIndex is required'')
           | Some triggerIdx \<Rightarrow> deleteTrigger h macroId triggerIdx))"

definition km_get_trigger_xml :: "'w host \<Rightarrow> toolArgs \<Rightarrow> ('w, jsstring) io" where
  "km_get_trigger_xml h args =
     (case truthyString (argMacroIdentifier args) of
        None \<Rightarrow> throwE (js ''macroIdentifier is required'')
      | Some macroId \<Rightarrow>
          (case truthyNumber (argTriggerIndex args) of
             None \<Rightarrow> throwE (js ''triggerIndex is required'')
           | Some triggerIdx \<Rightarrow> getTriggerXml h macroId triggerIdx))"

definition km_set_trigger_xml :: "'w host \<Rightarrow> toolArgs \<Rightarrow> ('w, jsstring) io" where
  "km_set_trigger_xml h args =
     (case truthyString (argMacroIdentifier args) of
        None \<Rightarrow> throwE (js ''macroIdentifier is required'')
      | Some macroId \<Rightarrow>
          (case truthyNumber (argTriggerIndex args) of
             None \<Rightarrow> throwE (js ''triggerIndex is required'')
           | Some triggerIdx \<Rightarrow>
               (case truthyString (argXml args) of
                  None \<Rightarrow> throwE (js ''xml is required'')
                | Some xml \<Rightarrow> setTriggerXml h macroId triggerIdx xml)))"

text \<open>
  \<open>km_move_action\<close> takes the three parameters out of the arguments and hands them to
  \<open>moveAction\<close> as they are: there is no check of any of them.
\<close>

definition km_move_action :: "'w host \<Rightarrow> toolArgs \<Rightarrow> ('w, jsstring) io" where
  "km_move_action h args =
     moveAction h (argMacroIdentifier args) (argActionIndex args) (argNewIndex args)"

text \<open>
  What a call answers: the text of the handler's result, or, from the \<open>catch\<close> around the
  whole \<open>switch\<close>, the text \<open>Error: \<close> and the message, marked as an error.
\<close>

record toolResult =
  resultText :: jsstring
  resultIsError :: bool

definition respond :: "('w, jsstring) io \<Rightarrow> 'w state \<Rightarrow> toolResult \<times> 'w state" where
  "respond handler s =
     (case handler s of
        (Inr text, s') \<Rightarrow> (\<lparr>resultText = text, resultIsError = False\<rparr>, s')
      | (Inl (Error msg), s') \<Rightarrow> (\<lparr>resultText = js ''Error: '' @ msg, resultIsError = True\<rparr>, s'))"

text \<open>
  The cases of the \<open>switch\<close> for the tools that edit, move or delete an action or a
  trigger: the eight tools whose schema has a 1-based position, and \<open>km_add_trigger\<close>.
  The arguments of the call are an object, with or without the parameters. The result is
  \<open>None\<close> for every other name: the other cases of the \<open>switch\<close> and its default are not
  part of this development.
\<close>

definition callTool ::
  "'w host \<Rightarrow> jsstring \<Rightarrow> toolArgs \<Rightarrow> 'w state \<Rightarrow> (toolResult \<times> 'w state) option" where
  "callTool h name args s =
     (if name = js ''km_get_action_xml'' then Some (respond (km_get_action_xml h args) s)
      else if name = js ''km_set_action_xml'' then Some (respond (km_set_action_xml h args) s)
      else if name = js ''km_search_replace_action''
        then Some (respond (km_search_replace_action h args) s)
      else if name = js ''km_delete_action'' then Some (respond (km_delete_action h args) s)
      else if name = js ''km_move_action'' then Some (respond (km_move_action h args) s)
      else if name = js ''km_add_trigger'' then Some (respond (km_add_trigger h args) s)
      else if name = js ''km_delete_trigger'' then Some (respond (km_delete_trigger h args) s)
      else if name = js ''km_get_trigger_xml'' then Some (respond (km_get_trigger_xml h args) s)
      else if name = js ''km_set_trigger_xml'' then Some (respond (km_set_trigger_xml h args) s)
      else None)"

text \<open>
  The tools whose handler tests the position before it does anything else: four test
  \<open>actionIndex\<close> and three test \<open>triggerIndex\<close>. The schema of an eighth tool,
  \<open>km_move_action\<close>, requires two 1-based positions (\<open>actionIndex\<close> and \<open>newIndex\<close>), and
  its handler tests neither: it is in neither list.
\<close>

definition actionIndexTools :: "jsstring list" where
  "actionIndexTools =
     [js ''km_get_action_xml'', js ''km_set_action_xml'', js ''km_delete_action'',
      js ''km_search_replace_action'']"

definition triggerIndexTools :: "jsstring list" where
  "triggerIndexTools =
     [js ''km_get_trigger_xml'', js ''km_set_trigger_xml'', js ''km_delete_trigger'']"

text \<open>A call with every parameter in place and every position \<open>0\<close>.\<close>

definition zeroIndexArgs :: toolArgs where
  "zeroIndexArgs =
     \<lparr>argMacroIdentifier = Some (js ''My Macro''), argActionIndex = Some 0,
      argTriggerIndex = Some 0, argNewIndex = Some 0, argXml = Some (js ''<dict/>''), argTriggerXml = None,
      argSearchText = Some (js ''a''), argReplaceText = Some (js ''b'')\<rparr>"

section \<open>Regular expressions\<close>

text \<open>
  The regular expressions of \<open>tools/logs.ts\<close> are made of single characters of a class,
  sequence, alternation, greedy \<open>+\<close> on a class, capturing groups and the two anchors.
  \<open>ms r\<close> lists, for a position in the input, the positions at which a match of \<open>r\<close> can
  end, in the order in which the backtracking matcher of ECMAScript tries them: the left
  alternative first, the longest repetition first. A position is the index, the input
  from there on, and the captures so far.
\<close>

datatype rx =
    Chr "jschar \<Rightarrow> bool"
  | Eps
  | Seq rx rx
  | Alt rx rx
  | Plus1 "jschar \<Rightarrow> bool"
  | Group nat rx
  | Bol
  | Eol

type_synonym caps = "nat \<Rightarrow> jsstring option"

type_synonym mstate = "nat \<times> jsstring \<times> caps"

fun ms :: "rx \<Rightarrow> mstate \<Rightarrow> mstate list" where
  "ms (Chr p) (i, s, c) = (case s of [] \<Rightarrow> [] | x # xs \<Rightarrow> if p x then [(Suc i, xs, c)] else [])"
| "ms Eps st = [st]"
| "ms (Seq a b) st = concat (map (ms b) (ms a st))"
| "ms (Alt a b) st = ms a st @ ms b st"
| "ms (Plus1 p) (i, s, c) =
     map (\<lambda>k. (i + k, drop k s, c)) (rev [1..<Suc (length (takeWhile p s))])"
| "ms (Group n r) (i, s, c) =
     map (\<lambda>(j, s', c'). (j, s', c'(n := Some (take (j - i) s)))) (ms r (i, s, c))"
| "ms Bol (i, s, c) = (if i = 0 then [(i, s, c)] else [])"
| "ms Eol (i, s, c) = (if s = [] then [(i, s, c)] else [])"

text \<open>
  \<open>regex.exec(s)\<close>, \<open>s.match(regex)\<close> for a regular expression without the \<open>g\<close> flag: the
  first match from the leftmost position that has one; \<open>null\<close> is \<open>None\<close>. The result gives
  the captured texts by group number.
\<close>

fun execAt :: "rx \<Rightarrow> nat \<Rightarrow> jsstring \<Rightarrow> caps option" where
  "execAt r i [] = (case ms r (i, [], \<lambda>n. None) of [] \<Rightarrow> None | (j, s', c) # rest \<Rightarrow> Some c)"
| "execAt r i (x # xs) =
     (case ms r (i, x # xs, \<lambda>n. None) of
        [] \<Rightarrow> execAt r (Suc i) xs
      | (j, s', c) # rest \<Rightarrow> Some c)"

definition rxExec :: "rx \<Rightarrow> jsstring \<Rightarrow> caps option" where
  "rxExec r s = execAt r 0 s"

definition rxTest :: "rx \<Rightarrow> jsstring \<Rightarrow> bool" where
  "rxTest r s = (rxExec r s \<noteq> None)"

text \<open>
  Building blocks: a literal text, a literal text under the \<open>i\<close> flag, a fixed number of
  repetitions, a sequence of several parts. Under the \<open>i\<close> flag (without \<open>u\<close>) a letter
  \<open>a\<close> to \<open>z\<close> of the pattern matches itself and its capital, and no code unit outside
  ASCII.
\<close>

fun lit :: "jsstring \<Rightarrow> rx" where
  "lit [] = Eps"
| "lit (c # cs) = Seq (Chr (\<lambda>x. x = c)) (lit cs)"

fun litCI :: "jsstring \<Rightarrow> rx" where
  "litCI [] = Eps"
| "litCI (c # cs) = Seq (Chr (\<lambda>x. asciiLower x = asciiLower c)) (litCI cs)"

fun times :: "nat \<Rightarrow> rx \<Rightarrow> rx" where
  "times 0 r = Eps"
| "times (Suc n) r = Seq r (times n r)"

fun seqs :: "rx list \<Rightarrow> rx" where
  "seqs [] = Eps"
| "seqs (r # rs) = Seq r (seqs rs)"

section \<open>The log analyzer of \<open>tools/logs.ts\<close>\<close>

definition ENGINE_LOG_PATH :: "'w host \<Rightarrow> jsstring" where
  "ENGINE_LOG_PATH h = path_join (homedir h) (js ''Library/Logs/Keyboard Maestro/Engine.log'')"

record logEntry =
  timestamp :: jsstring
  date :: "int option"
  message :: jsstring
  isError :: bool
  macroName :: "jsstring option"
  actionId :: "jsstring option"

text \<open>The five regular expressions of \<open>parseLogLine\<close>.\<close>

definition linePattern :: rx where
  "linePattern =
     seqs [Bol,
           Group 1 (seqs [times 4 (Chr isDigit), lit (js ''-''), times 2 (Chr isDigit),
                          lit (js ''-''), times 2 (Chr isDigit), Plus1 isWhiteSpace,
                          times 2 (Chr isDigit), lit (js '':''), times 2 (Chr isDigit),
                          lit (js '':''), times 2 (Chr isDigit)]),
           Plus1 isWhiteSpace,
           Group 2 (Plus1 (\<lambda>c. \<not> isLineTerminator c)),
           Eol]"

definition errorPattern :: rx where
  "errorPattern =
     Alt (litCI (js ''failed''))
       (Alt (litCI (js ''error'')) (Alt (litCI (js ''cancelled'')) (litCI (js ''timeout''))))"

definition macroPattern :: rx where
  \<open>macroPattern = seqs [lit (js ''Macro "''), Group 1 (Plus1 (\<lambda>c. c \<noteq> dquote)), lit [dquote]]\<close>

definition executePattern :: rx where
  \<open>executePattern =
     seqs [lit (js ''Execute macro "''), Group 1 (Plus1 (\<lambda>c. c \<noteq> dquote)), lit [dquote]]\<close>

definition actionPattern :: rx where
  "actionPattern = seqs [lit (js ''Action ''), Group 1 (Plus1 isDigit)]"

text \<open>\<open>match[n]\<close> of a match, or of \<open>null\<close> guarded by \<open>if (match)\<close>.\<close>

definition captured :: "caps option \<Rightarrow> nat \<Rightarrow> jsstring option" where
  "captured m n = (case m of None \<Rightarrow> None | Some c \<Rightarrow> c n)"

text \<open>
  \<open>parseLogLine\<close>. The two groups of the line pattern take part in every match of it, so
  the last case below is never reached.
\<close>

definition parseLogLine :: "'w host \<Rightarrow> jsstring \<Rightarrow> logEntry option" where
  "parseLogLine h line =
     (case rxExec linePattern line of
        None \<Rightarrow> None
      | Some m \<Rightarrow>
          (case (m 1, m 2) of
             (Some ts, Some msg) \<Rightarrow>
               let macroName1 = captured (rxExec macroPattern msg) 1;
                   macroName2 =
                     (if macroName1 = None \<or> macroName1 = Some []
                      then (case rxExec executePattern msg of
                              None \<Rightarrow> macroName1
                            | Some em \<Rightarrow> em 1)
                      else macroName1)
               in Some \<lparr>timestamp = ts,
                        date = dateParse h ts,
                        message = msg,
                        isError = rxTest errorPattern msg,
                        macroName = macroName2,
                        actionId = captured (rxExec actionPattern msg) 1\<rparr>
           | _ \<Rightarrow> None))"

text \<open>
  \<open>xs.slice(start)\<close>: a negative start counts from the end and stops at the beginning.
\<close>

definition sliceFrom :: "int \<Rightarrow> 'a list \<Rightarrow> 'a list" where
  "sliceFrom start xs =
     (if start < 0 then drop (nat (int (length xs) + start)) xs else drop (nat start) xs)"

text \<open>\<open>a >= b\<close> on two dates: false when either is an invalid date.\<close>

definition geDate :: "int option \<Rightarrow> int option \<Rightarrow> bool" where
  "geDate a b = (case (a, b) of (Some x, Some y) \<Rightarrow> x \<ge> y | _ \<Rightarrow> False)"

text \<open>\<open>s.includes(t)\<close>.\<close>

definition includesText :: "jsstring \<Rightarrow> jsstring \<Rightarrow> bool" where
  "includesText s t = list_ex (\<lambda>i. startsWith (drop i s) t) [0..<Suc (length s)]"

text \<open>
  The options of \<open>readEngineLog\<close> after their defaults: \<open>since\<close> and \<open>macroFilter\<close> may be
  \<open>undefined\<close>; a \<open>since\<close> that is given is a date, valid or not.
\<close>

record logOptions =
  lines :: int
  errorsOnly :: bool
  since :: "int option option"
  macroFilter :: "jsstring option"

definition selectEntries :: "'w host \<Rightarrow> logOptions \<Rightarrow> jsstring \<Rightarrow> logEntry list" where
  "selectEntries h opts content =
     (let allLines = filter (\<lambda>l. trim l \<noteq> []) (split (js ''\<newline>'') content);
          recentLines = sliceFrom (- lines opts) allLines;
          entries = List.map_filter (parseLogLine h) recentLines;
          entries1 = (if errorsOnly opts then filter isError entries else entries);
          entries2 = (case since opts of
                        None \<Rightarrow> entries1
                      | Some t \<Rightarrow> filter (\<lambda>e. geDate (date e) t) entries1)
      in case macroFilter opts of
           None \<Rightarrow> entries2
         | Some f \<Rightarrow>
             if f = [] then entries2
             else filter (\<lambda>e. case macroName e of
                                None \<Rightarrow> False
                              | Some n \<Rightarrow> includesText (toLowerCase h n) (toLowerCase h f))
                    entries2)"

definition readEngineLog :: "'w host \<Rightarrow> logOptions \<Rightarrow> ('w, logEntry list) io" where
  "readEngineLog h opts s =
     (case readFile h (ENGINE_LOG_PATH h) (world s) of (r, w') \<Rightarrow>
        let s' = \<lparr>world = w', trace = trace s @ [EvReadFile (ENGINE_LOG_PATH h)]\<rparr>
        in (case r of
              Inl msg \<Rightarrow> (Inl (Error (js ''Failed to read Engine log: '' @ msg)), s')
            | Inr content \<Rightarrow> (Inr (selectEntries h opts content), s')))"

text \<open>
  The table \<open>errorsByMacro\<close> is a fresh object, and its keys are kept in the order in
  which they were first written. A key that names a property every object inherits reads
  as that inherited value, which is truthy, and the three writes then go to the inherited
  value and not to the table. Runs with such a key are not part of this development:
  their result is \<open>None\<close>.
\<close>

record macroErrors =
  errCount :: int
  lastError :: jsstring
  lastTime :: jsstring

record errorSummary =
  totalErrors :: int
  errorsByMacro :: "(jsstring \<times> macroErrors) list"
  recentErrors :: "logEntry list"

definition inheritedKeys :: "jsstring list" where
  "inheritedKeys =
     [js ''constructor'', js ''__defineGetter__'', js ''__defineSetter__'', js ''hasOwnProperty'',
      js ''__lookupGetter__'', js ''__lookupSetter__'', js ''isPrototypeOf'',
      js ''propertyIsEnumerable'', js ''toString'', js ''valueOf'', js ''__proto__'',
      js ''toLocaleString'']"

text \<open>\<open>entry.macroName || 'Unknown'\<close>.\<close>

definition entryKey :: "logEntry \<Rightarrow> jsstring" where
  "entryKey entry =
     (case macroName entry of
        None \<Rightarrow> js ''Unknown''
      | Some n \<Rightarrow> if n = [] then js ''Unknown'' else n)"

definition countEntry ::
  "(jsstring \<times> macroErrors) list option \<Rightarrow> logEntry \<Rightarrow> (jsstring \<times> macroErrors) list option" where
  "countEntry table entry =
     (case table of
        None \<Rightarrow> None
      | Some tbl \<Rightarrow>
          let key = entryKey entry in
          if key \<in> set inheritedKeys then None
          else
            let g = (case map_of tbl key of
                       None \<Rightarrow> \<lparr>errCount = 0, lastError = [], lastTime = []\<rparr>
                     | Some g0 \<Rightarrow> g0)
            in Some (AList.update key
                       \<lparr>errCount = errCount g + 1, lastError = message entry,
                        lastTime = timestamp entry\<rparr> tbl))"

definition summarize :: "logEntry list \<Rightarrow> errorSummary option" where
  "summarize entries =
     (case foldl countEntry (Some []) entries of
        None \<Rightarrow> None
      | Some tbl \<Rightarrow>
          Some \<lparr>totalErrors = int (length entries),
                errorsByMacro = tbl,
                recentErrors = sliceFrom (- 10) entries\<rparr>)"

definition getErrorSummary :: "'w host \<Rightarrow> int \<Rightarrow> ('w, errorSummary option) io" where
  "getErrorSummary h hours s =
     (case dateNow h (world s) of (now, w1) \<Rightarrow>
        let sinceDate = Some (now - hours * 60 * 60 * 1000)
        in bindE (readEngineLog h
                    \<lparr>lines = 5000, errorsOnly = True, since = Some sinceDate, macroFilter = None\<rparr>)
             (\<lambda>entries. returnE (summarize entries))
             (s\<lparr>world := w1\<rparr>))"

section \<open>The log-line format in the words of the specification\<close>

text \<open>
  The format \<open>YYYY-MM-DD HH:MM:SS <message>\<close>, to compare \<open>parseLogLine\<close> with: a time
  stamp is four digits, a dash, two digits, a dash, two digits, white space, and three
  groups of two digits with colons between; a line of the format is a time stamp, white
  space, and a message of at least one character with no line break in it, and nothing
  more.
\<close>

definition digits :: "nat \<Rightarrow> jsstring \<Rightarrow> bool" where
  "digits n s = (length s = n \<and> list_all isDigit s)"

definition whiteSpaceRun :: "jsstring \<Rightarrow> bool" where
  "whiteSpaceRun w = (w \<noteq> [] \<and> list_all isWhiteSpace w)"

definition messageRun :: "jsstring \<Rightarrow> bool" where
  "messageRun msg = (msg \<noteq> [] \<and> list_all (\<lambda>c. \<not> isLineTerminator c) msg)"

definition isTimestamp :: "jsstring \<Rightarrow> bool" where
  "isTimestamp ts =
     (\<exists>y mo d w hh mi ss.
        ts = y @ js ''-'' @ mo @ js ''-'' @ d @ w @ hh @ js '':'' @ mi @ js '':'' @ ss
        \<and> digits 4 y \<and> digits 2 mo \<and> digits 2 d \<and> whiteSpaceRun w
        \<and> digits 2 hh \<and> digits 2 mi \<and> digits 2 ss)"

definition timestampPrefixed :: "jsstring \<Rightarrow> bool" where
  "timestampPrefixed line =
     (\<exists>ts w msg. line = ts @ w @ msg \<and> isTimestamp ts \<and> whiteSpaceRun w \<and> messageRun msg)"

text \<open>
  The keywords that make a message an error, and what it is for a message to match one
  of them whatever the case of its letters: the keyword is somewhere in the message,
  letter for letter up to case.
\<close>

definition errorKeywords :: "jsstring list" where
  "errorKeywords = [js ''failed'', js ''error'', js ''cancelled'', js ''timeout'']"

definition containsIgnoringCase :: "jsstring \<Rightarrow> jsstring \<Rightarrow> bool" where
  "containsIgnoringCase s w = (\<exists>a u b. s = a @ u @ b \<and> map asciiLower u = map asciiLower w)"

section \<open>What a regular expression matches\<close>

text \<open>
  \<open>consumes r (i, s) (j, s')\<close>: a match of \<open>r\<close> can start at index \<open>i\<close>, where the input
  still to read is \<open>s\<close>, and end at index \<open>j\<close> with \<open>s'\<close> still to read. This is the
  meaning of \<open>r\<close> without the order of the attempts and without the captures; the matcher
  \<open>ms\<close> is proved to find exactly these matches. \<open>eats P\<close> is the step that reads a text
  satisfying \<open>P\<close>, and \<open>conc P Q\<close> holds of a text made of a \<open>P\<close> and then a \<open>Q\<close>.
\<close>

fun consumes :: "rx \<Rightarrow> nat \<times> jsstring \<Rightarrow> nat \<times> jsstring \<Rightarrow> bool" where
  "consumes (Chr p) (i, s) (j, s') = (\<exists>x. s = x # s' \<and> p x \<and> j = Suc i)"
| "consumes Eps a b = (b = a)"
| "consumes (Seq a b) x z = (\<exists>y. consumes a x y \<and> consumes b y z)"
| "consumes (Alt a b) x z = (consumes a x z \<or> consumes b x z)"
| "consumes (Plus1 p) (i, s) (j, s') =
     (\<exists>u. u \<noteq> [] \<and> list_all p u \<and> s = u @ s' \<and> j = i + length u)"
| "consumes (Group n r) x z = consumes r x z"
| "consumes Bol (i, s) z = (i = 0 \<and> z = (i, s))"
| "consumes Eol (i, s) z = (s = [] \<and> z = (i, s))"

definition eats :: "(jsstring \<Rightarrow> bool) \<Rightarrow> nat \<times> jsstring \<Rightarrow> nat \<times> jsstring \<Rightarrow> bool" where
  "eats P x z = (\<exists>u. snd x = u @ snd z \<and> P u \<and> fst z = fst x + length u)"

definition conc :: "(jsstring \<Rightarrow> bool) \<Rightarrow> (jsstring \<Rightarrow> bool) \<Rightarrow> jsstring \<Rightarrow> bool" where
  "conc P Q u = (\<exists>a b. u = a @ b \<and> P a \<and> Q b)"

text \<open>The part of the line pattern that is the time stamp, its first group.\<close>

definition timestampRx :: rx where
  "timestampRx = seqs [times 4 (Chr isDigit), lit (js ''-''), times 2 (Chr isDigit),
                   lit (js ''-''), times 2 (Chr isDigit), Plus1 isWhiteSpace,
                   times 2 (Chr isDigit), lit (js '':''), times 2 (Chr isDigit),
                   lit (js '':''), times 2 (Chr isDigit)]"

section \<open>Properties of the string primitives\<close>

lemma startsWith_prefix: "startsWith s p \<longleftrightarrow> prefix p s"
  by (auto simp: startsWith_def prefix_def take_Suc_conv_app_nth)
    (metis append_eq_conv_conj)

lemma trim_decomposition:
  "\<exists>a b. s = a @ trim s @ b \<and> (\<forall>c \<in> set a. isWhiteSpace c) \<and> (\<forall>c \<in> set b. isWhiteSpace c)"
proof -
  let ?a = "takeWhile isWhiteSpace s"
  let ?r = "dropWhile isWhiteSpace s"
  let ?b = "rev (takeWhile isWhiteSpace (rev ?r))"
  have "?r = trim s @ ?b"
    unfolding trim_def
    by (metis rev_append rev_rev_ident takeWhile_dropWhile_id)
  then have "s = ?a @ trim s @ ?b"
    by (metis takeWhile_dropWhile_id)
  moreover have "\<forall>c \<in> set ?a. isWhiteSpace c"
    by (meson set_takeWhileD)
  moreover have "\<forall>c \<in> set ?b. isWhiteSpace c"
    by (metis set_rev set_takeWhileD)
  ultimately show ?thesis by blast
qed

lemma trim_no_leading: "trim s \<noteq> [] \<Longrightarrow> \<not> isWhiteSpace (hd (trim s))"
proof -
  assume ne: "trim s \<noteq> []"
  let ?r = "dropWhile isWhiteSpace s"
  let ?q = "dropWhile isWhiteSpace (rev ?r)"
  have q: "?q \<noteq> []" using ne by (simp add: trim_def)
  have rne: "?r \<noteq> []" using q by (cases "?r = []") simp_all
  obtain b where r: "?r = trim s @ b"
    unfolding trim_def by (metis rev_append rev_rev_ident takeWhile_dropWhile_id)
  have "hd (trim s) = hd ?r" using r ne by (metis hd_append2)
  moreover have "\<not> isWhiteSpace (hd ?r)" using rne by (rule hd_dropWhile)
  ultimately show ?thesis by simp
qed

lemma trim_no_trailing: "trim s \<noteq> [] \<Longrightarrow> \<not> isWhiteSpace (last (trim s))"
proof -
  assume ne: "trim s \<noteq> []"
  let ?q = "dropWhile isWhiteSpace (rev (dropWhile isWhiteSpace s))"
  have q: "?q \<noteq> []" using ne by (simp add: trim_def)
  have "last (trim s) = hd ?q" unfolding trim_def using q by (simp add: last_rev)
  moreover have "\<not> isWhiteSpace (hd ?q)" using q by (rule hd_dropWhile)
  ultimately show ?thesis by simp
qed

section \<open>The envelope\<close>

text \<open>
  C6. For every payload, \<open>wrapXmlInPlist\<close> returns the trimmed payload unchanged when the
  trimmed payload begins with the declaration token \<open><?xml\<close>, the doctype token
  \<open><!DOCTYPE\<close> or the root element token \<open><plist\<close>; otherwise it returns the full
  envelope (declaration, doctype header, root element) around the trimmed payload.
\<close>

theorem wrapXmlInPlist_envelope:
  "wrapXmlInPlist xml =
     (if prefix (js ''<?xml'') (trim xml) \<or> prefix (js ''<!DOCTYPE'') (trim xml)
         \<or> prefix (js ''<plist'') (trim xml)
      then trim xml
      else envelope (trim xml))"
  by (simp add: wrapXmlInPlist_def Let_def startsWith_prefix envelope_def xmlDeclaration_def
      doctypeHeader_def js_def)

section \<open>The verified add-action\<close>

text \<open>
  C2. In \<open>addAction\<close>, when the payload was staged, the count script, the add script and
  the second count script all ran without error, and the count read after the add is not
  strictly greater than the count read before it, the operation fails with the error
  \<open>Action was not created\<close> (wrapped as every failure of the operation is) and does not
  return success. The staged file is released on that path too.
\<close>

theorem addAction_not_applied:
  assumes "writeTempXml h actionXml s = (Inr tempPath, s1)"
    and "runAppleScriptFile h (addAction_countScript macroIdentifier) s1 = (Inr before, s2)"
    and "runAppleScriptFile h (addAction_script tempPath macroIdentifier) s2 = (Inr out, s3)"
    and "runAppleScriptFile h (addAction_countScript macroIdentifier) s3 = (Inr after, s4)"
    and "parseIntOr0 after \<le> parseIntOr0 before"
  shows "addAction h macroIdentifier actionXml s =
           (Inl (Error (js ''Failed to add action: Action was not created - XML may be invalid or malformed'')),
            cleanupTempFile h tempPath s4)"
  using assms
  by (simp add: addAction_def bindE_def finallyDo_def catchRethrow_def throwE_def Let_def js_def)

lemma parseIntOr0_three: "parseIntOr0 (trim (js ''3\<newline>'')) = 3"
  by (simp add: parseIntOr0_def parseInt_def trim_def js_def isWhiteSpace_def
      isLineTerminator_def startsWith_def isRadixDigit_def digitValue_def Let_def)

theorem addAction_not_applied_witness:
  "fst (addAction stuckHost (js ''M'') (js ''<dict/>'') state0)
     = Inl (Error (js ''Failed to add action: Action was not created - XML may be invalid or malformed''))"
proof -
  obtain p s1 where 1: "writeTempXml stuckHost (js ''<dict/>'') state0 = (Inr p, s1)"
    by (simp add: writeTempXml_def stuckHost_def Let_def)
  obtain s2 where 2: "runAppleScriptFile stuckHost (addAction_countScript (js ''M'')) s1
      = (Inr (trim (js ''3\<newline>'')), s2)"
    by (simp add: runAppleScriptFile_def stuckHost_def Let_def)
  obtain s3 where 3: "runAppleScriptFile stuckHost (addAction_script p (js ''M'')) s2
      = (Inr (trim (js ''3\<newline>'')), s3)"
    by (simp add: runAppleScriptFile_def stuckHost_def Let_def)
  obtain s4 where 4: "runAppleScriptFile stuckHost (addAction_countScript (js ''M'')) s3
      = (Inr (trim (js ''3\<newline>'')), s4)"
    by (simp add: runAppleScriptFile_def stuckHost_def Let_def)
  show ?thesis using addAction_not_applied[OF 1 2 3 4] by simp
qed

section \<open>Stage and release\<close>























section \<open>Names of staged files\<close>
















section \<open>Escaping of interpolated strings\<close>

text \<open>
  \<open>searchReplaceInAction\<close> escapes both the backslash and the double quote, and what it
  interpolates always stays inside its string literal.
\<close>

lemma escapeBackslashesAndQuotes_staysInLiteral:
  "staysInLiteral (escapeBackslashesAndQuotes s)"
proof (induction s)
  case Nil
  then show ?case by (simp add: escapeBackslashesAndQuotes_def replaceAll_def)
next
  case (Cons c s)
  have e: "escapeBackslashesAndQuotes (c # s) =
      (if c = backslash then [backslash, backslash]
       else if c = dquote then [backslash, dquote] else [c]) @ escapeBackslashesAndQuotes s"
    by (simp add: escapeBackslashesAndQuotes_def replaceAll_def dquote_def backslash_def)
  have ne: "backslash \<noteq> dquote" by (simp add: backslash_def dquote_def)
  show ?case
  proof (cases "c = backslash \<or> c = dquote")
    case True
    then show ?thesis using Cons e ne by auto
  next
    case False
    then show ?thesis using Cons e ne
      by (cases "escapeBackslashesAndQuotes s") auto
  qed
qed

text \<open>
  C1 at two inputs. \<open>getMacro\<close> interpolates its identifier as it is: for the identifier
  \<open>a"b\<close> the script reads \<open>name is "a"b"\<close>, and the quote of the identifier ends the
  literal. \<open>setVariable\<close> escapes double quotes only: the value of one backslash is
  interpolated unchanged and the script ends in \<open>to "\"\<close>, where the backslash takes the
  closing quote. Neither interpolated text stays inside its string literal.
\<close>

theorem interpolation_not_escaped:
  \<open>getMacro_script (js ''a"b'') =
     js ''\<newline>tell application "Keyboard Maestro"\<newline>  set theMacro to first macro whose name is "a"b" or id is "a"b"\<newline>  return name of theMacro & "|" & id of theMacro & "|" & enabled of theMacro\<newline>end tell''
   \<and> \<not> staysInLiteral (js ''a"b'')
   \<and> escapeQuotes [backslash] = [backslash]
   \<and> \<not> staysInLiteral (escapeQuotes [backslash])
   \<and> setVariable_script (js ''v'') (escapeQuotes [backslash]) =
       js ''tell application "Keyboard Maestro Engine" to setvariable "v" to "'' @ [backslash] @ js ''"''\<close>
  by (simp add: getMacro_script_def setVariable_script_def escapeQuotes_def replaceAll_def
      dquote_def backslash_def js_def)

section \<open>Decoding of list results\<close>

lemma trim_idem: "trim (trim s) = trim s"
proof (cases "trim s = []")
  case True
  then have "trim (trim s) = trim []" by simp
  also have "\<dots> = []" by (simp add: trim_def)
  finally show ?thesis using True by simp
next
  case False
  have 1: "dropWhile isWhiteSpace (trim s) = trim s"
    using False trim_no_leading[OF False] by (simp add: dropWhile_eq_self_iff)
  have "hd (rev (trim s)) = last (trim s)" using False by (simp add: hd_rev)
  then have 2: "dropWhile isWhiteSpace (rev (trim s)) = rev (trim s)"
    using False trim_no_trailing[OF False] by (simp add: dropWhile_eq_self_iff)
  show ?thesis by (subst (1) trim_def) (simp add: 1 2)
qed

text \<open>A blank raw output decodes to no record in all three decoders.\<close>

lemma blank_output_decodes_to_nothing:
  "trim raw = [] \<Longrightarrow>
     listMacros_decode raw = [] \<and> listGroups_decode raw = [] \<and> listActions_decode raw = []"
  by (simp add: listMacros_decode_def listGroups_decode_def listActions_decode_def)

text \<open>\<open>listGroups\<close> trims the names and drops the records whose name is then empty.\<close>

lemma listGroups_decode_named:
  "g \<in> set (listGroups_decode raw) \<Longrightarrow> groupName g \<noteq> [] \<and> trim (groupName g) = groupName g"
  by (auto simp: listGroups_decode_def Let_def orEmpty_def piece_def trim_idem
      split: if_splits option.splits)

text \<open>
  C5 at two inputs. The decoder of \<open>listMacros\<close> and \<open>searchMacros\<close> has no filter: for
  the output of an engine with a macro of empty name, and for an output that ends in the
  record delimiter, the result holds a record whose name is empty.
\<close>

theorem listMacros_decode_keeps_empty_names:
  "listMacros_decode (js ''Alpha|||UID-1;;;|||UID-2'') =
     [\<lparr>infoName = js ''Alpha'', infoUid = js ''UID-1''\<rparr>,
      \<lparr>infoName = [], infoUid = js ''UID-2''\<rparr>]
   \<and> listMacros_decode (js ''Alpha|||UID-1;;;'') =
     [\<lparr>infoName = js ''Alpha'', infoUid = js ''UID-1''\<rparr>,
      \<lparr>infoName = [], infoUid = []\<rparr>]"
  by (simp add: listMacros_decode_def trim_def split_def piece_def orEmpty_def js_def
      isWhiteSpace_def isLineTerminator_def Let_def)

section \<open>Moving an action\<close>





lemma minus_not_digit: "\<not> isDigit 0x2D" by (simp add: isDigit_def)




text \<open>
  An identifier with a double quote in it ends the literal early, and a position that
  was left out is written \<open>undefined\<close>: neither script is of the form that is read.
\<close>

lemma readMoveScript_quote:
  "readMoveScript (moveAction_script (Some [97, dquote, 98]) (Some 1) (Some 5)) = None"
  by (simp add: readMoveScript_def moveAction_script_def templateString_def templateNumber_def
       js_def dquote_def backslash_def)

lemma readMoveScript_undefined:
  "readMoveScript (moveAction_script (Some (js ''M'')) None (Some 5)) = None"
  by (simp add: readMoveScript_def moveAction_script_def templateString_def templateNumber_def
       js_def dquote_def backslash_def readNumber_def numberToString_def digitsOf.simps isDigit_def)


text \<open>\<open>moveAction\<close> runs one process, on the script it built, whatever the parameters.\<close>

lemma moveAction_runs_script:
  \<open>trace (snd (moveAction h macroIdentifier actionIndex newIndex s))
     = trace s @ [EvExec (js ''osascript <<'APPLESCRIPT'\<newline>''
                          @ moveAction_script macroIdentifier actionIndex newIndex
                          @ js ''\<newline>APPLESCRIPT'')]\<close>
  by (simp add: moveAction_def catchRethrow_def bindE_def runAppleScriptFile_def returnE_def
      Let_def split: prod.splits sum.splits error.splits)




section \<open>Validation of positions\<close>

lemma respond_throw: "respond (throwE msg) s = (\<lparr>resultText = js ''Error: '' @ msg, resultIsError = True\<rparr>, s)"
  by (simp add: respond_def throwE_def)

lemma truthyNumber_zero: "truthyNumber (Some 0) = None" by (simp add: truthyNumber_def)

lemma action_zero:
  assumes "name \<in> set actionIndexTools" and "argActionIndex args = Some 0"
  shows "callTool h name args s =
     Some (\<lparr>resultText = js ''Error: '' @
              (if truthyString (argMacroIdentifier args) = None
               then js ''macroIdentifier is required'' else js ''actionIndex is required''),
            resultIsError = True\<rparr>, s)"
proof -
  let ?r = "(\<lparr>resultText = js ''Error: '' @
              (if truthyString (argMacroIdentifier args) = None
               then js ''macroIdentifier is required'' else js ''actionIndex is required''),
            resultIsError = True\<rparr>, s)"
  have hs: "respond (km_get_action_xml h args) s = ?r" "respond (km_set_action_xml h args) s = ?r"
   "respond (km_delete_action h args) s = ?r" "respond (km_search_replace_action h args) s = ?r"
    using assms(2)
    by (auto simp: km_get_action_xml_def km_set_action_xml_def km_delete_action_def
        km_search_replace_action_def truthyNumber_zero respond_throw split: option.splits)
  from assms(1) consider "name = js ''km_get_action_xml''" | "name = js ''km_set_action_xml''"
    | "name = js ''km_delete_action''" | "name = js ''km_search_replace_action''"
    by (auto simp: actionIndexTools_def)
  then show ?thesis
  proof cases
    case 1 then show ?thesis using hs(1) by (simp add: callTool_def)
  next
    case 2 then show ?thesis using hs(2) by (simp add: callTool_def js_def)
  next
    case 3 then show ?thesis using hs(3) by (simp add: callTool_def js_def)
  next
    case 4 then show ?thesis using hs(4) by (simp add: callTool_def js_def)
  qed
qed

lemma trigger_zero:
  assumes "name \<in> set triggerIndexTools" and "argTriggerIndex args = Some 0"
  shows "callTool h name args s =
     Some (\<lparr>resultText = js ''Error: '' @
              (if truthyString (argMacroIdentifier args) = None
               then js ''macroIdentifier is required'' else js ''triggerIndex is required''),
            resultIsError = True\<rparr>, s)"
proof -
  let ?r = "(\<lparr>resultText = js ''Error: '' @
              (if truthyString (argMacroIdentifier args) = None
               then js ''macroIdentifier is required'' else js ''triggerIndex is required''),
            resultIsError = True\<rparr>, s)"
  have hs: "respond (km_get_trigger_xml h args) s = ?r" "respond (km_set_trigger_xml h args) s = ?r"
   "respond (km_delete_trigger h args) s = ?r"
    using assms(2)
    by (auto simp: km_get_trigger_xml_def km_set_trigger_xml_def km_delete_trigger_def
        truthyNumber_zero respond_throw split: option.splits)
  from assms(1) consider "name = js ''km_get_trigger_xml''" | "name = js ''km_set_trigger_xml''"
    | "name = js ''km_delete_trigger''"
    by (auto simp: triggerIndexTools_def)
  then show ?thesis
  proof cases
    case 1 then show ?thesis using hs(1) by (simp add: callTool_def js_def)
  next
    case 2 then show ?thesis using hs(2) by (simp add: callTool_def js_def)
  next
    case 3 then show ?thesis using hs(3) by (simp add: callTool_def js_def)
  qed
qed

lemma move_zero_script:
  \<open>moveAction_script (Some (js ''My Macro'')) (Some 0) (Some 0) =
     js ''\<newline>tell application "Keyboard Maestro"\<newline>  set theMacro to first macro whose name is "My Macro" or id is "My Macro"\<newline>  tell theMacro\<newline>    if 0 > count of actions then\<newline>      move action 0 to after last action\<newline>    else\<newline>      move action 0 to before action 0\<newline>    end if\<newline>  end tell\<newline>end tell''\<close>
  by (simp add: moveAction_script_def templateString_def templateNumber_def numberToString_def
      digitsOf.simps js_def)

lemma move_action_zero_runs:
  \<open>\<exists>r s'. callTool h (js ''km_move_action'') zeroIndexArgs s = Some (r, s')
     \<and> trace s' = trace s @ [EvExec (js ''osascript <<'APPLESCRIPT'\<newline>\<newline>tell application "Keyboard Maestro"\<newline>  set theMacro to first macro whose name is "My Macro" or id is "My Macro"\<newline>  tell theMacro\<newline>    if 0 > count of actions then\<newline>      move action 0 to after last action\<newline>    else\<newline>      move action 0 to before action 0\<newline>    end if\<newline>  end tell\<newline>end tell\<newline>APPLESCRIPT'')]\<close>
proof -
  have n: "callTool h (js ''km_move_action'') zeroIndexArgs s
      = Some (respond (moveAction h (Some (js ''My Macro'')) (Some 0) (Some 0)) s)"
    by (simp add: callTool_def km_move_action_def zeroIndexArgs_def js_def)
  have t: "trace (snd (respond m s)) = trace (snd (m s))" for m :: "('a, jsstring) io"
    by (simp add: respond_def split: prod.splits sum.splits error.splits)
  show ?thesis
    unfolding n
    using moveAction_runs_script[of h "Some (js ''My Macro'')" "Some 0" "Some 0" s]
    unfolding move_zero_script
    by (cases "respond (moveAction h (Some (js ''My Macro'')) (Some 0) (Some 0)) s")
       (simp add: t[symmetric] js_def)
qed

lemma move_action_zero_answer:
  \<open>fst (respond (moveAction stuckHost (Some (js ''My Macro'')) (Some 0) (Some 0)) state0)
     = \<lparr>resultText = js ''Moved action 0 to index 0 in macro "My Macro"'', resultIsError = False\<rparr>\<close>
  by (simp add: respond_def moveAction_def catchRethrow_def bindE_def runAppleScriptFile_def
      returnE_def Let_def stuckHost_def state0_def templateString_def templateNumber_def
      numberToString_def digitsOf.simps js_def)

text \<open>
  C10. For each of the seven tools whose handler tests the position
  (\<open>km_get_action_xml\<close>, \<open>km_set_action_xml\<close>, \<open>km_delete_action\<close>,
  \<open>km_search_replace_action\<close>, \<open>km_get_trigger_xml\<close>, \<open>km_set_trigger_xml\<close>,
  \<open>km_delete_trigger\<close>), a call that supplies the position \<open>0\<close> is answered with an
  error of the form \<open>... is required\<close>: for the position itself when the macro
  identifier passed its own check, which comes first. The state is returned as it was:
  no process was run and no file was staged. The eighth tool whose schema requires a
  1-based position, \<open>km_move_action\<close>, is not like them: called with both its positions
  \<open>0\<close>, on any host, it runs \<open>osascript\<close> on a script that moves action \<open>0\<close>, and where the
  process succeeds the call is answered as a success.
\<close>

theorem zero_index_checks:
  \<open>(name \<in> set actionIndexTools \<and> argActionIndex args = Some 0 \<longrightarrow>
      callTool h name args s =
        Some (\<lparr>resultText = js ''Error: '' @
                 (if truthyString (argMacroIdentifier args) = None
                  then js ''macroIdentifier is required'' else js ''actionIndex is required''),
               resultIsError = True\<rparr>, s))
   \<and> (name \<in> set triggerIndexTools \<and> argTriggerIndex args = Some 0 \<longrightarrow>
      callTool h name args s =
        Some (\<lparr>resultText = js ''Error: '' @
                 (if truthyString (argMacroIdentifier args) = None
                  then js ''macroIdentifier is required'' else js ''triggerIndex is required''),
               resultIsError = True\<rparr>, s))
   \<and> (\<exists>r s'. callTool h (js ''km_move_action'') zeroIndexArgs s = Some (r, s')
        \<and> trace s' = trace s @ [EvExec (js ''osascript <<'APPLESCRIPT'\<newline>\<newline>tell application "Keyboard Maestro"\<newline>  set theMacro to first macro whose name is "My Macro" or id is "My Macro"\<newline>  tell theMacro\<newline>    if 0 > count of actions then\<newline>      move action 0 to after last action\<newline>    else\<newline>      move action 0 to before action 0\<newline>    end if\<newline>  end tell\<newline>end tell\<newline>APPLESCRIPT'')])
   \<and> map_option fst (callTool stuckHost (js ''km_move_action'') zeroIndexArgs state0)
       = Some \<lparr>resultText = js ''Moved action 0 to index 0 in macro "My Macro"'',
               resultIsError = False\<rparr>\<close>
proof -
  have n: "callTool stuckHost (js ''km_move_action'') zeroIndexArgs state0
      = Some (respond (moveAction stuckHost (Some (js ''My Macro'')) (Some 0) (Some 0)) state0)"
    by (simp add: callTool_def km_move_action_def zeroIndexArgs_def js_def)
  have m: \<open>map_option fst (callTool stuckHost (js ''km_move_action'') zeroIndexArgs state0)
       = Some \<lparr>resultText = js ''Moved action 0 to index 0 in macro "My Macro"'',
               resultIsError = False\<rparr>\<close>
    by (simp only: n option.map move_action_zero_answer)
  show ?thesis
  proof (intro conjI impI)
    assume "name \<in> set actionIndexTools \<and> argActionIndex args = Some 0"
    then show "callTool h name args s =
        Some (\<lparr>resultText = js ''Error: '' @
                 (if truthyString (argMacroIdentifier args) = None
                  then js ''macroIdentifier is required'' else js ''actionIndex is required''),
               resultIsError = True\<rparr>, s)"
      using action_zero[of name args h s] by blast
  next
    assume "name \<in> set triggerIndexTools \<and> argTriggerIndex args = Some 0"
    then show "callTool h name args s =
        Some (\<lparr>resultText = js ''Error: '' @
                 (if truthyString (argMacroIdentifier args) = None
                  then js ''macroIdentifier is required'' else js ''triggerIndex is required''),
               resultIsError = True\<rparr>, s)"
      using trigger_zero[of name args h s] by blast
  qed (rule move_action_zero_runs, rule m)
qed

theorem zero_index_checks_witness:
  "callTool stuckHost (js ''km_get_action_xml'') zeroIndexArgs state0 =
     Some (\<lparr>resultText = js ''Error: actionIndex is required'', resultIsError = True\<rparr>, state0)
   \<and> callTool stuckHost (js ''km_delete_trigger'') zeroIndexArgs state0 =
     Some (\<lparr>resultText = js ''Error: triggerIndex is required'', resultIsError = True\<rparr>, state0)"
proof -
  have a: "js ''km_get_action_xml'' \<in> set actionIndexTools" by (simp add: actionIndexTools_def)
  have t: "js ''km_delete_trigger'' \<in> set triggerIndexTools" by (simp add: triggerIndexTools_def)
  have z: "argActionIndex zeroIndexArgs = Some 0" "argTriggerIndex zeroIndexArgs = Some 0"
    "truthyString (argMacroIdentifier zeroIndexArgs) \<noteq> None"
    by (simp_all add: zeroIndexArgs_def truthyString_def js_def)
  have 1: "callTool stuckHost (js ''km_get_action_xml'') zeroIndexArgs state0 =
        Some (\<lparr>resultText = js ''Error: '' @
                 (if truthyString (argMacroIdentifier zeroIndexArgs) = None
                  then js ''macroIdentifier is required'' else js ''actionIndex is required''),
               resultIsError = True\<rparr>, state0)"
    using zero_index_checks[of "js ''km_get_action_xml''" zeroIndexArgs stuckHost state0] a z(1)
    by blast
  have 2: "callTool stuckHost (js ''km_delete_trigger'') zeroIndexArgs state0 =
        Some (\<lparr>resultText = js ''Error: '' @
                 (if truthyString (argMacroIdentifier zeroIndexArgs) = None
                  then js ''macroIdentifier is required'' else js ''triggerIndex is required''),
               resultIsError = True\<rparr>, state0)"
    using zero_index_checks[of "js ''km_delete_trigger''" zeroIndexArgs stuckHost state0] t z(2)
    by blast
  show ?thesis using 1 2 z(3) by (simp add: js_def)
qed

text \<open>With the position \<open>1\<close> the same call does reach the process runner.\<close>

lemma index_one_runs:
  "trace (snd (the (callTool stuckHost (js ''km_delete_trigger'')
      (zeroIndexArgs\<lparr>argTriggerIndex := Some 1\<rparr>) state0))) \<noteq> []"
  by (simp add: callTool_def js_def km_delete_trigger_def zeroIndexArgs_def truthyString_def
      truthyNumber_def respond_def deleteTrigger_def catchRethrow_def bindE_def
      runAppleScriptFile_def returnE_def Let_def state0_def stuckHost_def split: prod.splits)

section \<open>Parsing a log line\<close>

text \<open>The matcher finds exactly the matches of the regular expression.\<close>

lemma plus1_positions:
  "(\<exists>k. 1 \<le> k \<and> k \<le> length (takeWhile p s) \<and> j = i + k \<and> s' = drop k s)
   \<longleftrightarrow> (\<exists>u. u \<noteq> [] \<and> list_all p u \<and> s = u @ s' \<and> j = i + length u)"
proof
  assume "\<exists>k. 1 \<le> k \<and> k \<le> length (takeWhile p s) \<and> j = i + k \<and> s' = drop k s"
  then obtain k where k: "1 \<le> k" "k \<le> length (takeWhile p s)" "j = i + k" "s' = drop k s"
    by blast
  let ?u = "take k s"
  have "take k s = take k (takeWhile p s @ dropWhile p s)" by simp
  also have "\<dots> = take k (takeWhile p s)" using k(2) by (simp del: takeWhile_dropWhile_id)
  finally have tk: "?u = take k (takeWhile p s)" .
  have "set ?u \<subseteq> set (takeWhile p s)" unfolding tk by (rule set_take_subset)
  then have "list_all p ?u" by (auto simp: list_all_iff dest: set_takeWhileD)
  moreover have "length ?u = k" using k(2) by (metis length_take min.absorb2 length_takeWhile_le le_trans)
  moreover have "?u \<noteq> []" using k(1) calculation(2) by auto
  ultimately show "\<exists>u. u \<noteq> [] \<and> list_all p u \<and> s = u @ s' \<and> j = i + length u"
    using k by (intro exI[of _ ?u]) simp
next
  assume "\<exists>u. u \<noteq> [] \<and> list_all p u \<and> s = u @ s' \<and> j = i + length u"
  then obtain u where u: "u \<noteq> []" "list_all p u" "s = u @ s'" "j = i + length u" by blast
  have "takeWhile p s = u @ takeWhile p s'"
    using u(2,3) by (simp add: list_all_iff)
  then have "length u \<le> length (takeWhile p s)" by simp
  moreover have "1 \<le> length u" using u(1) by (cases u) auto
  ultimately show "\<exists>k. 1 \<le> k \<and> k \<le> length (takeWhile p s) \<and> j = i + k \<and> s' = drop k s"
    using u by (intro exI[of _ "length u"]) simp
qed

lemma ms_consumes:
  "(\<exists>c'. (j, s', c') \<in> set (ms r (i, s, c))) \<longleftrightarrow> consumes r (i, s) (j, s')"
proof (induction r arbitrary: i s c j s')
  case (Chr p)
  then show ?case by (cases s) auto
next
  case Eps
  then show ?case by auto
next
  case (Seq a b)
  have "(\<exists>c'. (j, s', c') \<in> set (ms (Seq a b) (i, s, c)))
     \<longleftrightarrow> (\<exists>k m c1. (k, m, c1) \<in> set (ms a (i, s, c)) \<and> (\<exists>c'. (j, s', c') \<in> set (ms b (k, m, c1))))"
    by auto
  also have "\<dots> \<longleftrightarrow> (\<exists>k m. (\<exists>c1. (k, m, c1) \<in> set (ms a (i, s, c))) \<and> consumes b (k, m) (j, s'))"
    using Seq.IH(2) by blast
  also have "\<dots> \<longleftrightarrow> (\<exists>k m. consumes a (i, s) (k, m) \<and> consumes b (k, m) (j, s'))"
    using Seq.IH(1) by simp
  finally show ?case by simp
next
  case (Alt a b)
  then show ?case by (simp add: ex_disj_distrib)
next
  case (Plus1 p)
  have "(\<exists>c'. (j, s', c') \<in> set (ms (Plus1 p) (i, s, c)))
     \<longleftrightarrow> (\<exists>k. 1 \<le> k \<and> k \<le> length (takeWhile p s) \<and> j = i + k \<and> s' = drop k s)"
    by (auto simp: image_iff)
  then show ?case using plus1_positions[of p s j i s'] by simp
next
  case (Group n r)
  have "(\<exists>c'. (j, s', c') \<in> set (ms (Group n r) (i, s, c)))
     \<longleftrightarrow> (\<exists>c'. (j, s', c') \<in> set (ms r (i, s, c)))"
    by (auto simp: image_iff) force
  then show ?case using Group.IH by simp
next
  case Bol
  then show ?case by auto
next
  case Eol
  then show ?case by auto
qed

lemma ms_nonempty: "ms r (i, s, c) \<noteq> [] \<longleftrightarrow> (\<exists>j s'. consumes r (i, s) (j, s'))"
proof -
  have "ms r (i, s, c) \<noteq> [] \<longleftrightarrow> (\<exists>j s' c'. (j, s', c') \<in> set (ms r (i, s, c)))"
    by (cases "ms r (i, s, c)") auto
  then show ?thesis using ms_consumes by blast
qed

lemma execAt_matches:
  "execAt r i s \<noteq> None \<longleftrightarrow> (\<exists>k \<le> length s. \<exists>j s'. consumes r (i + k, drop k s) (j, s'))"
proof (induction s arbitrary: i)
  case Nil
  have "execAt r i [] \<noteq> None \<longleftrightarrow> ms r (i, [], \<lambda>n. None) \<noteq> []"
    by (auto split: list.splits)
  then show ?case by (simp add: ms_nonempty)
next
  case (Cons x xs)
  have "execAt r i (x # xs) \<noteq> None \<longleftrightarrow>
      ms r (i, x # xs, \<lambda>n. None) \<noteq> [] \<or> execAt r (Suc i) xs \<noteq> None"
    by (auto split: list.splits)
  also have "\<dots> \<longleftrightarrow> (\<exists>j s'. consumes r (i, x # xs) (j, s'))
      \<or> (\<exists>k \<le> length xs. \<exists>j s'. consumes r (Suc i + k, drop k xs) (j, s'))"
    using Cons.IH by (simp add: ms_nonempty)
  also have "\<dots> \<longleftrightarrow> (\<exists>k \<le> length (x # xs). \<exists>j s'. consumes r (i + k, drop k (x # xs)) (j, s'))"
  proof
    assume "(\<exists>j s'. consumes r (i, x # xs) (j, s'))
      \<or> (\<exists>k \<le> length xs. \<exists>j s'. consumes r (Suc i + k, drop k xs) (j, s'))"
    then show "\<exists>k \<le> length (x # xs). \<exists>j s'. consumes r (i + k, drop k (x # xs)) (j, s')"
    proof
      assume "\<exists>j s'. consumes r (i, x # xs) (j, s')"
      then show ?thesis by (intro exI[of _ 0]) simp
    next
      assume "\<exists>k \<le> length xs. \<exists>j s'. consumes r (Suc i + k, drop k xs) (j, s')"
      then obtain k where "k \<le> length xs" "\<exists>j s'. consumes r (Suc i + k, drop k xs) (j, s')" by blast
      then show ?thesis by (intro exI[of _ "Suc k"]) simp
    qed
  next
    assume "\<exists>k \<le> length (x # xs). \<exists>j s'. consumes r (i + k, drop k (x # xs)) (j, s')"
    then obtain k where k: "k \<le> length (x # xs)" "\<exists>j s'. consumes r (i + k, drop k (x # xs)) (j, s')"
      by blast
    show "(\<exists>j s'. consumes r (i, x # xs) (j, s'))
      \<or> (\<exists>k \<le> length xs. \<exists>j s'. consumes r (Suc i + k, drop k xs) (j, s'))"
    proof (cases k)
      case 0
      then show ?thesis using k by simp
    next
      case (Suc k')
      then show ?thesis using k by auto
    qed
  qed
  finally show ?case .
qed

lemma eats_Eps: "consumes Eps = eats (\<lambda>u. u = [])"
  by (rule ext, rule ext) (auto simp: eats_def prod_eq_iff)

lemma eats_Chr: "consumes (Chr p) = eats (\<lambda>u. length u = 1 \<and> list_all p u)"
proof (rule ext, rule ext)
  fix x z :: "nat \<times> jsstring"
  obtain i s j s' where [simp]: "x = (i, s)" "z = (j, s')" by (cases x, cases z) auto
  show "consumes (Chr p) x z = eats (\<lambda>u. length u = 1 \<and> list_all p u) x z"
    by (auto simp: eats_def length_Suc_conv)
qed

lemma eats_Plus1: "consumes (Plus1 p) = eats (\<lambda>u. u \<noteq> [] \<and> list_all p u)"
proof (rule ext, rule ext)
  fix x z :: "nat \<times> jsstring"
  obtain i s j s' where [simp]: "x = (i, s)" "z = (j, s')" by (cases x, cases z) auto
  show "consumes (Plus1 p) x z = eats (\<lambda>u. u \<noteq> [] \<and> list_all p u) x z"
    by (auto simp: eats_def)
qed

lemma eats_Seq:
  assumes "consumes a = eats P" and "consumes b = eats Q"
  shows "consumes (Seq a b) = eats (conc P Q)"
proof (rule ext, rule ext)
  fix x z :: "nat \<times> jsstring"
  show "consumes (Seq a b) x z = eats (conc P Q) x z"
  proof
    assume "consumes (Seq a b) x z"
    then obtain y where "eats P x y" "eats Q y z" using assms by auto
    then obtain u v where "snd x = u @ snd y" "P u" "fst y = fst x + length u"
      "snd y = v @ snd z" "Q v" "fst z = fst y + length v"
      unfolding eats_def by blast
    then show "eats (conc P Q) x z"
      unfolding eats_def conc_def by (intro exI[of _ "u @ v"]) auto
  next
    assume "eats (conc P Q) x z"
    then obtain u v where uv: "snd x = (u @ v) @ snd z" "P u" "Q v" "fst z = fst x + length (u @ v)"
      unfolding eats_def conc_def by blast
    let ?y = "(fst x + length u, v @ snd z)"
    have "eats P x ?y" using uv unfolding eats_def by auto
    moreover have "eats Q ?y z" using uv unfolding eats_def by auto
    ultimately show "consumes (Seq a b) x z" using assms by auto
  qed
qed

lemma eats_Group: "consumes r = eats P \<Longrightarrow> consumes (Group n r) = eats P"
  by (rule ext, rule ext) simp

lemma eats_cong: "(\<And>u. P u = Q u) \<Longrightarrow> eats P = eats Q"
  by (rule ext, rule ext) (simp add: eats_def)

lemma eats_lit: "consumes (lit w) = eats (\<lambda>u. u = w)"
proof (induction w)
  case Nil
  then show ?case by (simp add: eats_Eps)
next
  case (Cons c w)
  have "consumes (lit (c # w)) = eats (conc (\<lambda>u. length u = 1 \<and> list_all (\<lambda>x. x = c) u) (\<lambda>u. u = w))"
    unfolding lit.simps by (rule eats_Seq[OF eats_Chr Cons])
  also have "\<dots> = eats (\<lambda>u. u = c # w)"
    by (rule eats_cong) (auto simp: conc_def length_Suc_conv)
  finally show ?case .
qed

lemma eats_litCI: "consumes (litCI w) = eats (\<lambda>u. map asciiLower u = map asciiLower w)"
proof (induction w)
  case Nil
  then show ?case by (simp add: eats_Eps)
next
  case (Cons c w)
  have "consumes (litCI (c # w)) =
      eats (conc (\<lambda>u. length u = 1 \<and> list_all (\<lambda>x. asciiLower x = asciiLower c) u)
                 (\<lambda>u. map asciiLower u = map asciiLower w))"
    unfolding litCI.simps by (rule eats_Seq[OF eats_Chr Cons])
  also have "\<dots> = eats (\<lambda>u. map asciiLower u = map asciiLower (c # w))"
  proof (rule eats_cong)
    fix u :: jsstring
    show "conc (\<lambda>u. length u = 1 \<and> list_all (\<lambda>x. asciiLower x = asciiLower c) u)
            (\<lambda>u. map asciiLower u = map asciiLower w) u
        = (map asciiLower u = map asciiLower (c # w))"
    proof
      assume "conc (\<lambda>u. length u = 1 \<and> list_all (\<lambda>x. asciiLower x = asciiLower c) u)
            (\<lambda>u. map asciiLower u = map asciiLower w) u"
      then show "map asciiLower u = map asciiLower (c # w)"
        by (auto simp: conc_def length_Suc_conv)
    next
      assume a: "map asciiLower u = map asciiLower (c # w)"
      then obtain x xs where u: "u = x # xs" by (cases u) auto
      show "conc (\<lambda>u. length u = 1 \<and> list_all (\<lambda>x. asciiLower x = asciiLower c) u)
            (\<lambda>u. map asciiLower u = map asciiLower w) u"
        using a u unfolding conc_def by (intro exI[of _ "[x]"] exI[of _ xs]) auto
    qed
  qed
  finally show ?case .
qed

lemma eats_times: "consumes (times n (Chr p)) = eats (\<lambda>u. length u = n \<and> list_all p u)"
proof (induction n)
  case 0
  have "eats (\<lambda>u. u = []) = eats (\<lambda>u. length u = 0 \<and> list_all p u)"
    by (rule eats_cong) auto
  then show ?case by (simp add: eats_Eps)
next
  case (Suc n)
  have "consumes (times (Suc n) (Chr p)) =
      eats (conc (\<lambda>u. length u = 1 \<and> list_all p u) (\<lambda>u. length u = n \<and> list_all p u))"
    unfolding times.simps by (rule eats_Seq[OF eats_Chr Suc])
  also have "\<dots> = eats (\<lambda>u. length u = Suc n \<and> list_all p u)"
  proof (rule eats_cong)
    fix u :: jsstring
    show "conc (\<lambda>u. length u = 1 \<and> list_all p u) (\<lambda>u. length u = n \<and> list_all p u) u
        = (length u = Suc n \<and> list_all p u)"
    proof
      assume "conc (\<lambda>u. length u = 1 \<and> list_all p u) (\<lambda>u. length u = n \<and> list_all p u) u"
      then show "length u = Suc n \<and> list_all p u" by (auto simp: conc_def)
    next
      assume a: "length u = Suc n \<and> list_all p u"
      then obtain x xs where "u = x # xs" by (cases u) auto
      then show "conc (\<lambda>u. length u = 1 \<and> list_all p u) (\<lambda>u. length u = n \<and> list_all p u) u"
        using a unfolding conc_def by (intro exI[of _ "[x]"] exI[of _ xs]) auto
    qed
  qed
  finally show ?case .
qed

lemma consumes_timestamp:
  "consumes (seqs [times 4 (Chr isDigit), lit (js ''-''), times 2 (Chr isDigit),
                   lit (js ''-''), times 2 (Chr isDigit), Plus1 isWhiteSpace,
                   times 2 (Chr isDigit), lit (js '':''), times 2 (Chr isDigit),
                   lit (js '':''), times 2 (Chr isDigit)]) = eats isTimestamp"
proof -
  let ?P = "conc (digits 4) (conc (\<lambda>u. u = js ''-'') (conc (digits 2) (conc (\<lambda>u. u = js ''-'')
     (conc (digits 2) (conc whiteSpaceRun (conc (digits 2) (conc (\<lambda>u. u = js '':'')
     (conc (digits 2) (conc (\<lambda>u. u = js '':'') (conc (digits 2) (\<lambda>u. u = [])))))))))))"
  have d: "consumes (times n (Chr isDigit)) = eats (digits n)" for n
    unfolding eats_times by (rule eats_cong) (simp add: digits_def)
  have w: "consumes (Plus1 isWhiteSpace) = eats whiteSpaceRun"
    unfolding eats_Plus1 by (rule eats_cong) (simp add: whiteSpaceRun_def)
  have "consumes (seqs [times 4 (Chr isDigit), lit (js ''-''), times 2 (Chr isDigit),
                   lit (js ''-''), times 2 (Chr isDigit), Plus1 isWhiteSpace,
                   times 2 (Chr isDigit), lit (js '':''), times 2 (Chr isDigit),
                   lit (js '':''), times 2 (Chr isDigit)]) = eats ?P"
    unfolding seqs.simps
    by (intro eats_Seq d w eats_lit eats_Eps)
  also have "\<dots> = eats isTimestamp"
  proof (rule eats_cong)
    fix u :: jsstring
    show "?P u = isTimestamp u"
    proof
      assume "?P u"
      then obtain y mo d w hh mi ss where
        "u = y @ js ''-'' @ mo @ js ''-'' @ d @ w @ hh @ js '':'' @ mi @ js '':'' @ ss"
        "digits 4 y" "digits 2 mo" "digits 2 d" "whiteSpaceRun w" "digits 2 hh" "digits 2 mi"
        "digits 2 ss"
        unfolding conc_def by auto
      then show "isTimestamp u" unfolding isTimestamp_def by blast
    next
      assume "isTimestamp u"
      then obtain y mo d w hh mi ss where u:
        "u = y @ js ''-'' @ mo @ js ''-'' @ d @ w @ hh @ js '':'' @ mi @ js '':'' @ ss"
        "digits 4 y" "digits 2 mo" "digits 2 d" "whiteSpaceRun w" "digits 2 hh" "digits 2 mi"
        "digits 2 ss"
        unfolding isTimestamp_def by blast
      have 1: "conc (digits 2) (\<lambda>u. u = []) ss" using u(8) by (simp add: conc_def)
      have 2: "conc (\<lambda>u. u = js '':'') (conc (digits 2) (\<lambda>u. u = [])) (js '':'' @ ss)"
        using 1 unfolding conc_def[of "\<lambda>u. u = js '':''"] by blast
      have 3: "conc (digits 2) (conc (\<lambda>u. u = js '':'') (conc (digits 2) (\<lambda>u. u = [])))
          (mi @ js '':'' @ ss)"
        using 2 u(7) unfolding conc_def[of "digits 2" "conc (\<lambda>u. u = js '':'') (conc (digits 2) (\<lambda>u. u = []))"] by blast
      define R3 where "R3 = conc (digits 2) (conc (\<lambda>u. u = js '':'') (conc (digits 2) (\<lambda>u. u = [])))"
      have 3: "R3 (mi @ js '':'' @ ss)" using 3 by (simp add: R3_def)
      have 4: "conc (\<lambda>u. u = js '':'') R3 (js '':'' @ mi @ js '':'' @ ss)"
        using 3 unfolding conc_def[of _ R3] by blast
      define R4 where "R4 = conc (\<lambda>u. u = js '':'') R3"
      have 5: "conc (digits 2) R4 (hh @ js '':'' @ mi @ js '':'' @ ss)"
        using 4 u(6) unfolding R4_def[symmetric] conc_def[of _ R4] by blast
      define R5 where "R5 = conc (digits 2) R4"
      have 6: "conc whiteSpaceRun R5 (w @ hh @ js '':'' @ mi @ js '':'' @ ss)"
        using 5 u(5) unfolding R5_def[symmetric] conc_def[of _ R5] by blast
      define R6 where "R6 = conc whiteSpaceRun R5"
      have 7: "conc (digits 2) R6 (d @ w @ hh @ js '':'' @ mi @ js '':'' @ ss)"
        using 6 u(4) unfolding R6_def[symmetric] conc_def[of _ R6] by blast
      define R7 where "R7 = conc (digits 2) R6"
      have 8: "conc (\<lambda>u. u = js ''-'') R7 (js ''-'' @ d @ w @ hh @ js '':'' @ mi @ js '':'' @ ss)"
        using 7 unfolding R7_def[symmetric] conc_def[of _ R7] by blast
      define R8 where "R8 = conc (\<lambda>u. u = js ''-'') R7"
      have 9: "conc (digits 2) R8 (mo @ js ''-'' @ d @ w @ hh @ js '':'' @ mi @ js '':'' @ ss)"
        using 8 u(3) unfolding R8_def[symmetric] conc_def[of _ R8] by blast
      define R9 where "R9 = conc (digits 2) R8"
      have 10: "conc (\<lambda>u. u = js ''-'') R9
          (js ''-'' @ mo @ js ''-'' @ d @ w @ hh @ js '':'' @ mi @ js '':'' @ ss)"
        using 9 unfolding R9_def[symmetric] conc_def[of _ R9] by blast
      define R10 where "R10 = conc (\<lambda>u. u = js ''-'') R9"
      have 11: "conc (digits 4) R10 u"
        using 10 u(2) unfolding R10_def[symmetric] u(1) conc_def[of _ R10] by blast
      show "?P u"
        using 11 unfolding R10_def R9_def R8_def R7_def R6_def R5_def R4_def R3_def .
    qed
  qed
  finally show ?thesis .
qed

lemma exists_eats:
  "(\<exists>k \<le> length s. \<exists>z. eats P (i + k, drop k s) z) \<longleftrightarrow> (\<exists>a u b. s = a @ u @ b \<and> P u)"
proof
  assume "\<exists>k \<le> length s. \<exists>z. eats P (i + k, drop k s) z"
  then obtain k and z :: "nat \<times> jsstring" and u
    where "k \<le> length s" "drop k s = u @ snd z" "P u"
    unfolding eats_def by auto
  then have "s = take k s @ u @ snd z \<and> P u" by (metis append_take_drop_id)
  then show "\<exists>a u b. s = a @ u @ b \<and> P u" by blast
next
  assume "\<exists>a u b. s = a @ u @ b \<and> P u"
  then obtain a u b where s: "s = a @ u @ b" "P u" by blast
  have "eats P (i + length a, drop (length a) s) (i + length a + length u, b)"
    using s by (simp add: eats_def)
  moreover have "length a \<le> length s" using s by simp
  ultimately show "\<exists>k \<le> length s. \<exists>z. eats P (i + k, drop k s) z" by blast
qed

lemma rxTest_matches:
  "rxTest r s \<longleftrightarrow> (\<exists>k \<le> length s. \<exists>z. consumes r (k, drop k s) z)"
  using execAt_matches[of r 0 s] by (simp add: rxTest_def rxExec_def)

lemma rxTest_errorPattern:
  "rxTest errorPattern msg \<longleftrightarrow> (\<exists>w \<in> set errorKeywords. containsIgnoringCase msg w)"
proof -
  have "rxTest errorPattern msg \<longleftrightarrow>
      (\<exists>k \<le> length msg. \<exists>z.
          eats (\<lambda>u. map asciiLower u = map asciiLower (js ''failed'')) (0 + k, drop k msg) z
        \<or> eats (\<lambda>u. map asciiLower u = map asciiLower (js ''error'')) (0 + k, drop k msg) z
        \<or> eats (\<lambda>u. map asciiLower u = map asciiLower (js ''cancelled'')) (0 + k, drop k msg) z
        \<or> eats (\<lambda>u. map asciiLower u = map asciiLower (js ''timeout'')) (0 + k, drop k msg) z)"
    unfolding rxTest_matches errorPattern_def consumes.simps eats_litCI by simp
  also have "\<dots> \<longleftrightarrow>
      (\<exists>k \<le> length msg. \<exists>z. eats (\<lambda>u. map asciiLower u = map asciiLower (js ''failed'')) (0 + k, drop k msg) z)
    \<or> (\<exists>k \<le> length msg. \<exists>z. eats (\<lambda>u. map asciiLower u = map asciiLower (js ''error'')) (0 + k, drop k msg) z)
    \<or> (\<exists>k \<le> length msg. \<exists>z. eats (\<lambda>u. map asciiLower u = map asciiLower (js ''cancelled'')) (0 + k, drop k msg) z)
    \<or> (\<exists>k \<le> length msg. \<exists>z. eats (\<lambda>u. map asciiLower u = map asciiLower (js ''timeout'')) (0 + k, drop k msg) z)"
    by blast
  also have "\<dots> \<longleftrightarrow> (\<exists>w \<in> set errorKeywords. containsIgnoringCase msg w)"
    unfolding exists_eats by (simp add: errorKeywords_def containsIgnoringCase_def)
  finally show ?thesis .
qed

lemma linePattern_shape:
  "linePattern = Seq Bol (Seq (Group 1 timestampRx) (Seq (Plus1 isWhiteSpace)
      (Seq (Group 2 (Plus1 (\<lambda>c. \<not> isLineTerminator c))) (Seq Eol Eps))))"
  by (simp add: linePattern_def timestampRx_def)

lemma consumes_Bol: "consumes Bol x y \<longleftrightarrow> fst x = 0 \<and> y = x"
  by (cases x) auto

lemma consumes_Eol: "consumes Eol x y \<longleftrightarrow> snd x = [] \<and> y = x"
  by (cases x) auto

lemma consumes_linePattern:
  "(\<exists>z. consumes linePattern (i, line) z) \<longleftrightarrow> i = 0 \<and> timestampPrefixed line"
proof -
  have t: "consumes (Group 1 timestampRx) = eats isTimestamp"
    unfolding timestampRx_def by (rule eats_Group) (rule consumes_timestamp)
  have w: "consumes (Plus1 isWhiteSpace) = eats whiteSpaceRun"
    unfolding eats_Plus1 by (rule eats_cong) (simp add: whiteSpaceRun_def)
  have m: "consumes (Group 2 (Plus1 (\<lambda>c. \<not> isLineTerminator c))) = eats messageRun"
    by (rule eats_Group) (unfold eats_Plus1, rule eats_cong, simp add: messageRun_def)
  have body: "consumes (Seq (Group 1 timestampRx) (Seq (Plus1 isWhiteSpace)
      (Group 2 (Plus1 (\<lambda>c. \<not> isLineTerminator c)))))
     = eats (conc isTimestamp (conc whiteSpaceRun messageRun))"
    by (intro eats_Seq t w m)
  have split: "consumes linePattern x z \<longleftrightarrow>
      fst x = 0 \<and> eats (conc isTimestamp (conc whiteSpaceRun messageRun)) x z \<and> snd z = []"
    for x z
  proof -
    have "consumes linePattern x z \<longleftrightarrow>
        fst x = 0 \<and> (\<exists>y1 y2. consumes (Group 1 timestampRx) x y1 \<and> consumes (Plus1 isWhiteSpace) y1 y2
            \<and> consumes (Group 2 (Plus1 (\<lambda>c. \<not> isLineTerminator c))) y2 z \<and> snd z = [])"
      unfolding linePattern_shape consumes.simps(3) consumes_Bol consumes_Eol consumes.simps(2)
      by blast
    also have "\<dots> \<longleftrightarrow> fst x = 0 \<and>
        consumes (Seq (Group 1 timestampRx) (Seq (Plus1 isWhiteSpace)
          (Group 2 (Plus1 (\<lambda>c. \<not> isLineTerminator c))))) x z \<and> snd z = []"
      unfolding consumes.simps(3) by blast
    finally show ?thesis unfolding body .
  qed
  have "(\<exists>z. consumes linePattern (i, line) z) \<longleftrightarrow>
      i = 0 \<and> (\<exists>u. line = u \<and> conc isTimestamp (conc whiteSpaceRun messageRun) u)"
    unfolding split eats_def by (auto simp: prod_eq_iff)
  also have "\<dots> \<longleftrightarrow> i = 0 \<and> timestampPrefixed line"
    unfolding conc_def timestampPrefixed_def messageRun_def by blast
  finally show ?thesis .
qed

lemma execAt_result:
  "execAt r i s = Some m \<Longrightarrow> \<exists>k j s'. (j, s', m) \<in> set (ms r (i + k, drop k s, \<lambda>n. None))"
proof (induction s arbitrary: i)
  case Nil
  then obtain j s' rest where "ms r (i, [], \<lambda>n. None) = (j, s', m) # rest"
    by (auto split: list.splits)
  then have "(j, s', m) \<in> set (ms r (i + 0, drop 0 [], \<lambda>n. None))" by simp
  then show ?case by blast
next
  case (Cons x xs)
  show ?case
  proof (cases "ms r (i, x # xs, \<lambda>n. None)")
    case Nil
    then have "execAt r (Suc i) xs = Some m" using Cons.prems by simp
    from Cons.IH[OF this] obtain k j s' where
      "(j, s', m) \<in> set (ms r (Suc i + k, drop k xs, \<lambda>n. None))" by blast
    then have "(j, s', m) \<in> set (ms r (i + Suc k, drop (Suc k) (x # xs), \<lambda>n. None))" by simp
    then show ?thesis by blast
  next
    case (Cons a rest)
    obtain j s' c where a: "a = (j, s', c)" by (cases a)
    then have "m = c" using Cons Cons.prems by simp
    then have "(j, s', m) \<in> set (ms r (i + 0, drop 0 (x # xs), \<lambda>n. None))"
      using Cons a by simp
    then show ?thesis by blast
  qed
qed

lemma ms_caps_mono:
  "(j, s', c') \<in> set (ms r (i, s, c)) \<Longrightarrow> c n \<noteq> None \<Longrightarrow> c' n \<noteq> None"
proof (induction r arbitrary: i s c j s' c')
  case (Chr p)
  then show ?case by (cases s) (auto split: if_splits)
next
  case (Seq a b)
  from Seq.prems(1) obtain k m c1 where
    1: "(k, m, c1) \<in> set (ms a (i, s, c))" and 2: "(j, s', c') \<in> set (ms b (k, m, c1))"
    by auto
  from Seq.IH(1)[OF 1 Seq.prems(2)] have "c1 n \<noteq> None" .
  from Seq.IH(2)[OF 2 this] show ?case .
next
  case (Alt a b)
  then show ?case by auto
next
  case (Group g r)
  from Group.prems(1) obtain c1 where 1: "(j, s', c1) \<in> set (ms r (i, s, c))"
    and c': "c' = c1(g := Some (take (j - i) s))" by auto
  from Group.IH[OF 1 Group.prems(2)] show ?case using c' by simp
qed (auto split: if_splits)

lemma ms_Group_defined: "(j, s', c') \<in> set (ms (Group n r) st) \<Longrightarrow> c' n \<noteq> None"
  by (cases st) auto

lemma ms_Seq_mem:
  "z \<in> set (ms (Seq a b) x) \<longleftrightarrow> (\<exists>y \<in> set (ms a x). z \<in> set (ms b y))"
  by simp

lemma linePattern_caps:
  assumes "(j, s', m) \<in> set (ms linePattern st)"
  shows "m 1 \<noteq> None \<and> m 2 \<noteq> None"
proof -
  from assms obtain y0 y1 y2 y3 y4 where
    "y0 \<in> set (ms Bol st)"
    and y1: "y1 \<in> set (ms (Group 1 timestampRx) y0)"
    and y2: "y2 \<in> set (ms (Plus1 isWhiteSpace) y1)"
    and y3: "y3 \<in> set (ms (Group 2 (Plus1 (\<lambda>c. \<not> isLineTerminator c))) y2)"
    and y4: "y4 \<in> set (ms Eol y3)"
    and z: "(j, s', m) \<in> set (ms Eps y4)"
    unfolding linePattern_shape ms_Seq_mem by blast
  obtain i1 s1 c1 where e1: "y1 = (i1, s1, c1)" by (cases y1)
  obtain i2 s2 c2 where e2: "y2 = (i2, s2, c2)" by (cases y2)
  obtain i3 s3 c3 where e3: "y3 = (i3, s3, c3)" by (cases y3)
  have "c1 1 \<noteq> None" using ms_Group_defined y1 e1 by blast
  then have "c2 1 \<noteq> None" using ms_caps_mono y2 e1 e2 by blast
  then have "c3 1 \<noteq> None" using ms_caps_mono y3 e2 e3 by blast
  moreover have "c3 2 \<noteq> None" using ms_Group_defined y3 e3 by blast
  moreover have "m = c3" using y4 z e3 by (auto split: if_splits)
  ultimately show ?thesis by simp
qed

lemma rxExec_linePattern_caps:
  "rxExec linePattern line = Some m \<Longrightarrow> m 1 \<noteq> None \<and> m 2 \<noteq> None"
  unfolding rxExec_def using execAt_result linePattern_caps by blast

lemma rxExec_linePattern: "rxExec linePattern line \<noteq> None \<longleftrightarrow> timestampPrefixed line"
proof -
  have "rxExec linePattern line \<noteq> None \<longleftrightarrow>
      (\<exists>k \<le> length line. \<exists>z. consumes linePattern (k, drop k line) z)"
    using execAt_matches[of linePattern 0 line] by (simp add: rxExec_def)
  also have "\<dots> \<longleftrightarrow> (\<exists>k \<le> length line. k = 0 \<and> timestampPrefixed (drop k line))"
    unfolding consumes_linePattern ..
  also have "\<dots> \<longleftrightarrow> timestampPrefixed line" by auto
  finally show ?thesis .
qed

lemma parseLogLine_None: "parseLogLine h line = None \<longleftrightarrow> \<not> timestampPrefixed line"
proof (cases "rxExec linePattern line")
  case None
  then show ?thesis using rxExec_linePattern[of line] by (simp add: parseLogLine_def)
next
  case (Some m)
  then obtain ts msg where "m 1 = Some ts" "m 2 = Some msg"
    using rxExec_linePattern_caps by blast
  then show ?thesis using Some rxExec_linePattern[of line]
    by (simp add: parseLogLine_def Let_def)
qed

lemma parseLogLine_isError:
  "parseLogLine h line = Some e \<Longrightarrow> isError e = rxTest errorPattern (message e)"
  by (auto simp: parseLogLine_def Let_def split: option.splits)

lemma times_4: "times 4 r = Seq r (Seq r (Seq r (Seq r Eps)))" by (simp add: eval_nat_numeral)

lemma times_2: "times 2 r = Seq r (Seq r Eps)" by (simp add: eval_nat_numeral)

lemma parseLogLine_daily: \<open>parseLogLine h (js ''2025-01-01 10:00:00 Execute macro "Daily Backup" failed'') =
   Some \<lparr>timestamp = js ''2025-01-01 10:00:00'', date = dateParse h (js ''2025-01-01 10:00:00''),
         message = js ''Execute macro "Daily Backup" failed'', isError = True,
         macroName = Some (js ''Daily Backup''), actionId = None\<rparr>\<close>
  by (simp add: parseLogLine_def rxExec_def rxTest_def captured_def linePattern_def errorPattern_def
      macroPattern_def executePattern_def actionPattern_def times_4 times_2 js_def isDigit_def
      isWhiteSpace_def isLineTerminator_def dquote_def asciiLower_def Let_def)

text \<open>
  C8. The line \<open>2025-01-01 10:00:00 Execute macro "Daily Backup" failed\<close> parses to an
  entry that is an error and has the macro name \<open>Daily Backup\<close>. A line yields no entry
  exactly when it is not of the format \<open>YYYY-MM-DD HH:MM:SS <message>\<close>. The entry of
  a line is an error exactly when its message contains one of the keywords \<open>failed\<close>,
  \<open>error\<close>, \<open>cancelled\<close>, \<open>timeout\<close>, whatever the case of the letters.
\<close>

theorem parseLogLine_classifies:
  \<open>parseLogLine h (js ''2025-01-01 10:00:00 Execute macro "Daily Backup" failed'') =
     Some \<lparr>timestamp = js ''2025-01-01 10:00:00'',
           date = dateParse h (js ''2025-01-01 10:00:00''),
           message = js ''Execute macro "Daily Backup" failed'', isError = True,
           macroName = Some (js ''Daily Backup''), actionId = None\<rparr>
   \<and> (parseLogLine h line = None \<longleftrightarrow> \<not> timestampPrefixed line)
   \<and> (\<forall>e. parseLogLine h line = Some e \<longrightarrow>
          (isError e \<longleftrightarrow> (\<exists>w \<in> set errorKeywords. containsIgnoringCase (message e) w)))\<close>
  using parseLogLine_daily[of h] parseLogLine_None[of h line] parseLogLine_isError[of h line]
    rxTest_errorPattern
  by (simp only: simp_thms) blast

theorem parseLogLine_classifies_witness:
  \<open>parseLogLine stuckHost (js ''2025-01-01 10:00:00 Macro "Nightly" Cancelled'') =
     Some \<lparr>timestamp = js ''2025-01-01 10:00:00'', date = None,
           message = js ''Macro "Nightly" Cancelled'', isError = True,
           macroName = Some (js ''Nightly''), actionId = None\<rparr>
   \<and> (\<exists>w \<in> set errorKeywords. containsIgnoringCase (js ''Macro "Nightly" Cancelled'') w)
   \<and> timestampPrefixed (js ''2025-01-01 10:00:00 Macro "Nightly" Cancelled'')\<close>
proof -
  let ?line = \<open>js ''2025-01-01 10:00:00 Macro "Nightly" Cancelled''\<close>
  let ?e = \<open>\<lparr>timestamp = js ''2025-01-01 10:00:00'', date = None,
           message = js ''Macro "Nightly" Cancelled'', isError = True,
           macroName = Some (js ''Nightly''), actionId = None\<rparr>\<close>
  have p: "parseLogLine stuckHost ?line = Some ?e"
    by (simp add: parseLogLine_def rxExec_def rxTest_def captured_def linePattern_def
        errorPattern_def macroPattern_def executePattern_def actionPattern_def times_4 times_2
        js_def isDigit_def isWhiteSpace_def isLineTerminator_def dquote_def asciiLower_def
        Let_def stuckHost_def)
  from parseLogLine_classifies[of stuckHost ?line]
  have n: "parseLogLine stuckHost ?line = None \<longleftrightarrow> \<not> timestampPrefixed ?line"
    and c: "\<forall>e. parseLogLine stuckHost ?line = Some e \<longrightarrow>
          (isError e \<longleftrightarrow> (\<exists>w \<in> set errorKeywords. containsIgnoringCase (message e) w))"
    by blast+
  have "timestampPrefixed ?line" using n p by simp
  moreover have "\<exists>w \<in> set errorKeywords. containsIgnoringCase (message ?e) w"
    using c p by (metis logEntry.select_convs(4))
  ultimately show ?thesis using p by simp
qed

end
